theory Spec2Isabelle
  imports Complex_Main "HOL-Library.Monad_Syntax"
begin

section \<open>JavaScript values\<close>

text \<open>
  The weather router \<^verbatim>\<open>src/api/v1/weather/weatherObserve.js\<close> computes with
  JavaScript numbers and with the values \<^verbatim>\<open>undefined\<close>, \<^verbatim>\<open>null\<close> and strings.
  A number is modelled as \<open>NaN\<close>, one of the two infinities, or a finite number
  \<open>Fin x\<close> with \<open>x\<close> a real; the signed zero of a double is not kept. The numbers
  the program computes with are doubles, the reals \<^verbatim>\<open>m * 2^e\<close> with \<open>m\<close> below
  \<^verbatim>\<open>2^53\<close> in size. Rounding to the nearest double is modelled where a result of
  the program depends on it: in reading a number from a string, in the two loops of
  \<open>validateCoordinate\<close> and in the percentage of the probability estimator. The
  formatter, the feels-like formula and the synthetic climate model compute on the
  reals.
\<close>

datatype jsnum = NaN | PInf | NInf | Fin real

datatype jsval = Undefined | Null | Number jsnum | Str string

subsection \<open>Rounding to a double\<close>

text \<open>
  The binade of a non-zero real is the exponent of the largest power of two that is
  not above it in size. A double has 53 significant bits, so the doubles of a binade
  \<open>b\<close> are the multiples of \<^verbatim>\<open>2^(b-52)\<close>; below the binade -1022 they are the multiples
  of \<^verbatim>\<open>2^(-1074)\<close>.
\<close>

definition binade :: "real \<Rightarrow> int" where
  "binade x = \<lfloor>log 2 \<bar>x\<bar>\<rfloor>"

definition ulp_exponent :: "real \<Rightarrow> int" where
  "ulp_exponent x = max (binade x - 52) (- 1074)"

text \<open>The nearest integer, a half going to the even neighbour.\<close>

definition round_half_even :: "real \<Rightarrow> int" where
  "round_half_even q =
     (let f = \<lfloor>q\<rfloor>; d = q - of_int f
      in if d < 1 / 2 then f else if 1 / 2 < d then f + 1
         else if even f then f else f + 1)"

text \<open>The multiple of the unit in the last place nearest to a real, the exponent unbounded above.\<close>

definition round_to_double :: "real \<Rightarrow> real" where
  "round_to_double x =
     (if x = 0 then 0
      else of_int (round_half_even (x / 2 powi ulp_exponent x)) * 2 powi ulp_exponent x)"

text \<open>
  The number a real result becomes: the nearest double, or the infinity of its sign
  when that is \<^verbatim>\<open>2^1024\<close> or more in size.
\<close>

definition double_of :: "real \<Rightarrow> jsnum" where
  "double_of x =
     (let y = round_to_double x
      in if 2 ^ 1024 \<le> \<bar>y\<bar> then (if 0 < x then PInf else NInf) else Fin y)"

text \<open>The finite doubles.\<close>

definition is_double :: "real \<Rightarrow> bool" where
  "is_double x =
     (\<exists>m e :: int. x = of_int m * 2 powi e \<and> \<bar>m\<bar> < 2 ^ 53 \<and> - 1074 \<le> e \<and> e \<le> 971)"

subsection \<open>Comparison and arithmetic on numbers\<close>

text \<open>\<^verbatim>\<open>a > b\<close> on numbers: false as soon as one side is \<open>NaN\<close>.\<close>

fun num_gt :: "jsnum \<Rightarrow> jsnum \<Rightarrow> bool" where
  "num_gt (Fin a) (Fin b) = (b < a)"
| "num_gt PInf (Fin b) = True"
| "num_gt PInf NInf = True"
| "num_gt (Fin a) NInf = True"
| "num_gt _ _ = False"

definition num_lt :: "jsnum \<Rightarrow> jsnum \<Rightarrow> bool" where
  "num_lt a b = num_gt b a"

definition num_eq :: "jsnum \<Rightarrow> jsnum \<Rightarrow> bool" where
  "num_eq a b = (a \<noteq> NaN \<and> a = b)"

definition num_ge :: "jsnum \<Rightarrow> jsnum \<Rightarrow> bool" where
  "num_ge a b = (num_gt a b \<or> num_eq a b)"

definition num_le :: "jsnum \<Rightarrow> jsnum \<Rightarrow> bool" where
  "num_le a b = (num_lt a b \<or> num_eq a b)"

fun num_neg :: "jsnum \<Rightarrow> jsnum" where
  "num_neg NaN = NaN"
| "num_neg PInf = NInf"
| "num_neg NInf = PInf"
| "num_neg (Fin a) = Fin (- a)"

fun num_add :: "jsnum \<Rightarrow> jsnum \<Rightarrow> jsnum" where
  "num_add (Fin a) (Fin b) = Fin (a + b)"
| "num_add NaN _ = NaN"
| "num_add _ NaN = NaN"
| "num_add PInf NInf = NaN"
| "num_add NInf PInf = NaN"
| "num_add PInf _ = PInf"
| "num_add _ PInf = PInf"
| "num_add NInf _ = NInf"
| "num_add _ NInf = NInf"

definition num_sub :: "jsnum \<Rightarrow> jsnum \<Rightarrow> jsnum" where
  "num_sub a b = num_add a (num_neg b)"

definition num_mul :: "jsnum \<Rightarrow> jsnum \<Rightarrow> jsnum" where
  "num_mul a b =
     (case (a, b) of
        (Fin x, Fin y) \<Rightarrow> Fin (x * y)
      | _ \<Rightarrow>
          if a = NaN \<or> b = NaN \<or> a = Fin 0 \<or> b = Fin 0 then NaN
          else if num_gt a (Fin 0) = num_gt b (Fin 0) then PInf else NInf)"

text \<open>Division; a zero divisor is read as \<open>+0\<close>.\<close>

definition num_div :: "jsnum \<Rightarrow> jsnum \<Rightarrow> jsnum" where
  "num_div a b =
     (case (a, b) of
        (Fin x, Fin y) \<Rightarrow>
          if y \<noteq> 0 then Fin (x / y)
          else if x = 0 then NaN else if 0 < x then PInf else NInf
      | (Fin x, PInf) \<Rightarrow> Fin 0
      | (Fin x, NInf) \<Rightarrow> Fin 0
      | (PInf, Fin y) \<Rightarrow> if 0 \<le> y then PInf else NInf
      | (NInf, Fin y) \<Rightarrow> if 0 \<le> y then NInf else PInf
      | _ \<Rightarrow> NaN)"

text \<open>The result of an operation, rounded to a double.\<close>

fun num_round :: "jsnum \<Rightarrow> jsnum" where
  "num_round (Fin x) = double_of x"
| "num_round n = n"

text \<open>\<^verbatim>\<open>Math.round\<close> rounds to the nearest integer, a half upwards.\<close>

fun math_round :: "jsnum \<Rightarrow> jsnum" where
  "math_round (Fin x) = Fin (of_int \<lfloor>x + 1 / 2\<rfloor>)"
| "math_round n = n"

fun math_abs :: "jsnum \<Rightarrow> jsnum" where
  "math_abs (Fin x) = Fin \<bar>x\<bar>"
| "math_abs NaN = NaN"
| "math_abs _ = PInf"

definition is_NaN :: "jsnum \<Rightarrow> bool" where
  "is_NaN n = (n = NaN)"

subsection \<open>Numbers and strings\<close>

fun nat_to_string :: "nat \<Rightarrow> string" where
  "nat_to_string n =
     (if n < 10 then [''0123456789'' ! n]
      else nat_to_string (n div 10) @ [''0123456789'' ! (n mod 10)])"

definition int_to_string :: "int \<Rightarrow> string" where
  "int_to_string i =
     (if i < 0 then CHR ''-'' # nat_to_string (nat (- i)) else nat_to_string (nat i))"

text \<open>
  The text a template literal gives for a number that \<^verbatim>\<open>Math.round\<close> returned
  (an integer below \<open>10\<^sup>2\<^sup>1\<close> in size, an infinity or \<open>NaN\<close>).
\<close>

fun integral_to_string :: "jsnum \<Rightarrow> string" where
  "integral_to_string NaN = ''NaN''"
| "integral_to_string PInf = ''Infinity''"
| "integral_to_string NInf = ''-Infinity''"
| "integral_to_string (Fin x) = int_to_string \<lfloor>x\<rfloor>"

definition is_digit :: "char \<Rightarrow> bool" where
  "is_digit c = (c \<in> set ''0123456789'')"

definition digit_val :: "char \<Rightarrow> nat" where
  "digit_val c = of_char c - 48"

definition digits_value :: "string \<Rightarrow> nat" where
  "digits_value ds = foldl (\<lambda>a c. 10 * a + digit_val c) 0 ds"

text \<open>White space: the ASCII characters of the language's white space and line ends.\<close>

definition is_space :: "char \<Rightarrow> bool" where
  "is_space c = (c \<in> set [CHR 0x09, CHR 0x0A, CHR 0x0B, CHR 0x0C, CHR 0x0D, CHR 0x20])"

fun split_sign :: "string \<Rightarrow> real \<times> string" where
  "split_sign [] = (1, [])"
| "split_sign (c # r) =
     (if c = CHR ''+'' then (1, r) else if c = CHR ''-'' then (- 1, r) else (1, c # r))"

text \<open>The exponent of a decimal literal: read only when a digit follows it.\<close>

fun exponent_part :: "string \<Rightarrow> int \<times> string" where
  "exponent_part [] = (0, [])"
| "exponent_part (c # r) =
     (if c = CHR ''e'' \<or> c = CHR ''E'' then
        (let (esg, r1) = split_sign r; ed = takeWhile is_digit r1
         in if ed = [] then (0, c # r)
            else ((if esg < 0 then - int (digits_value ed) else int (digits_value ed)),
                  dropWhile is_digit r1))
      else (0, c # r))"

definition scale10 :: "real \<Rightarrow> int \<Rightarrow> real" where
  "scale10 m e = (if 0 \<le> e then m * 10 ^ nat e else m / 10 ^ nat (- e))"

text \<open>
  The longest prefix of a string that is a decimal literal (sign, \<^verbatim>\<open>Infinity\<close>, or
  digits with an optional fraction and exponent), with its value and the rest of the
  string; \<open>None\<close> when no prefix is one. The value is the double nearest to what the
  digits denote: \<^verbatim>\<open>1e309\<close> reads as \<^verbatim>\<open>Infinity\<close>, \<^verbatim>\<open>1e-400\<close> as 0.
\<close>

definition str_decimal_literal :: "string \<Rightarrow> (jsnum \<times> string) option" where
  "str_decimal_literal s =
     (let (sg, s1) = split_sign s in
      if take 8 s1 = ''Infinity'' then Some (if 0 < sg then PInf else NInf, drop 8 s1)
      else
        let ip = takeWhile is_digit s1;
            s2 = dropWhile is_digit s1;
            has_dot = (s2 \<noteq> [] \<and> hd s2 = CHR ''.'');
            fp = (if has_dot then takeWhile is_digit (tl s2) else []);
            s3 = (if has_dot then dropWhile is_digit (tl s2) else s2)
        in if ip = [] \<and> fp = [] then None
           else
             let (ex, s4) = exponent_part s3;
                 m = real (digits_value ip) + real (digits_value fp) / 10 ^ length fp
             in Some (double_of (scale10 (sg * m) ex), s4))"

text \<open>\<^verbatim>\<open>parseFloat\<close> of a string: leading white space is skipped, what follows the literal is ignored.\<close>

definition parseFloat_str :: "string \<Rightarrow> jsnum" where
  "parseFloat_str s =
     (case str_decimal_literal (dropWhile is_space s) of
        None \<Rightarrow> NaN
      | Some (v, _) \<Rightarrow> v)"

text \<open>
  \<^verbatim>\<open>parseFloat\<close> of any value goes through its text: a number reads back as itself,
  \<^verbatim>\<open>"undefined"\<close> and \<^verbatim>\<open>"null"\<close> are not literals.
\<close>

fun parseFloat :: "jsval \<Rightarrow> jsnum" where
  "parseFloat (Str s) = parseFloat_str s"
| "parseFloat (Number n) = n"
| "parseFloat Undefined = NaN"
| "parseFloat Null = NaN"

definition hex_digit_val :: "char \<Rightarrow> nat option" where
  "hex_digit_val c =
     (if is_digit c then Some (digit_val c)
      else if c \<in> set ''abcdef'' then Some (of_char c - 87)
      else if c \<in> set ''ABCDEF'' then Some (of_char c - 55)
      else None)"

text \<open>A literal in base 16, 8 or 2 after its prefix: every character a digit of the base.\<close>

definition radix_literal :: "nat \<Rightarrow> string \<Rightarrow> jsnum" where
  "radix_literal b ds =
     (if ds \<noteq> [] \<and> list_all (\<lambda>c. case hex_digit_val c of None \<Rightarrow> False | Some d \<Rightarrow> d < b) ds
      then double_of (real (foldl (\<lambda>a c. b * a + the (hex_digit_val c)) 0 ds))
      else NaN)"

definition trim :: "string \<Rightarrow> string" where
  "trim s = rev (dropWhile is_space (rev (dropWhile is_space s)))"

text \<open>
  The number a string converts to where an operator needs a number (\<^verbatim>\<open>ToNumber\<close>):
  the whole string, white space at both ends apart, must be one literal; the empty
  string is 0.
\<close>

definition string_to_number :: "string \<Rightarrow> jsnum" where
  "string_to_number s =
     (let t = trim s in
      if t = [] then Fin 0
      else if take 2 t = ''0x'' \<or> take 2 t = ''0X'' then radix_literal 16 (drop 2 t)
      else if take 2 t = ''0o'' \<or> take 2 t = ''0O'' then radix_literal 8 (drop 2 t)
      else if take 2 t = ''0b'' \<or> take 2 t = ''0B'' then radix_literal 2 (drop 2 t)
      else
        (case str_decimal_literal t of
           Some (v, []) \<Rightarrow> v
         | _ \<Rightarrow> NaN))"

fun to_number :: "jsval \<Rightarrow> jsnum" where
  "to_number Undefined = NaN"
| "to_number Null = Fin 0"
| "to_number (Number n) = n"
| "to_number (Str s) = string_to_number s"

text \<open>Strings compare by their characters' codes.\<close>

fun str_lt :: "string \<Rightarrow> string \<Rightarrow> bool" where
  "str_lt [] [] = False"
| "str_lt [] (y # ys) = True"
| "str_lt (x # xs) [] = False"
| "str_lt (x # xs) (y # ys) = ((of_char x :: nat) < of_char y \<or> (x = y \<and> str_lt xs ys))"

text \<open>\<^verbatim>\<open>a > b\<close> on values: two strings compare as strings, anything else as numbers.\<close>

fun js_gt :: "jsval \<Rightarrow> jsval \<Rightarrow> bool" where
  "js_gt (Str a) (Str b) = str_lt b a"
| "js_gt a b = num_gt (to_number a) (to_number b)"

definition js_lt :: "jsval \<Rightarrow> jsval \<Rightarrow> bool" where
  "js_lt a b = js_gt b a"

text \<open>\<^verbatim>\<open>a === b\<close>: the same value, and \<open>NaN\<close> equals nothing.\<close>

definition js_strict_eq :: "jsval \<Rightarrow> jsval \<Rightarrow> bool" where
  "js_strict_eq a b = (a = b \<and> a \<noteq> Number NaN)"

text \<open>Truthiness of a value: \<^verbatim>\<open>undefined\<close>, \<^verbatim>\<open>null\<close>, 0, \<open>NaN\<close> and the empty string are falsy.\<close>

fun truthy :: "jsval \<Rightarrow> bool" where
  "truthy Undefined = False"
| "truthy Null = False"
| "truthy (Number n) = (n \<noteq> NaN \<and> n \<noteq> Fin 0)"
| "truthy (Str s) = (s \<noteq> [])"

section \<open>The sentinel validator\<close>

text \<open>
  \<^verbatim>\<open>function isValidNASAValue(value) {
  return value !== undefined && value !== null && value !== -999 && value > -900; }\<close>
\<close>

definition isValidNASAValue :: "jsval \<Rightarrow> bool" where
  "isValidNASAValue v =
     (\<not> js_strict_eq v Undefined \<and> \<not> js_strict_eq v Null
      \<and> \<not> js_strict_eq v (Number (Fin (- 999)))
      \<and> js_gt v (Number (Fin (- 900))))"

text \<open>
  \<^verbatim>\<open>function getValidNASAValue(value, defaultValue = 0) {
  return isValidNASAValue(value) ? value : defaultValue; }\<close>
  The default of the second parameter applies when the argument is left out or is
  \<^verbatim>\<open>undefined\<close>.
\<close>

definition getValidNASAValue :: "jsval \<Rightarrow> jsval \<Rightarrow> jsval" where
  "getValidNASAValue v d =
     (let defaultValue = (if d = Undefined then Number (Fin 0) else d)
      in if isValidNASAValue v then v else defaultValue)"

section \<open>The desert region classifier\<close>

record desert_region =
  name :: string
  latMin :: real
  latMax :: real
  lonMin :: real
  lonMax :: real

definition DESERT_REGIONS :: "desert_region list" where
  "DESERT_REGIONS =
     [\<lparr>name = ''Sahara'', latMin = 15, latMax = 30, lonMin = - 20, lonMax = 50\<rparr>,
      \<lparr>name = ''Arabian'', latMin = 15, latMax = 30, lonMin = 35, lonMax = 60\<rparr>,
      \<lparr>name = ''Gobi'', latMin = 35, latMax = 50, lonMin = 85, lonMax = 120\<rparr>,
      \<lparr>name = ''Australian'', latMin = - 30, latMax = - 20, lonMin = 120, lonMax = 150\<rparr>,
      \<lparr>name = ''North American'', latMin = 25, latMax = 40, lonMin = - 120, lonMax = - 100\<rparr>,
      \<lparr>name = ''Kalahari'', latMin = - 25, latMax = - 15, lonMin = 15, lonMax = 25\<rparr>,
      \<lparr>name = ''Thar'', latMin = 20, latMax = 30, lonMin = 65, lonMax = 75\<rparr>,
      \<lparr>name = ''Syrian'', latMin = 30, latMax = 35, lonMin = 35, lonMax = 45\<rparr>]"

text \<open>
  \<^verbatim>\<open>DESERT_REGIONS.some(desert => lat >= desert.latMin && lat <= desert.latMax &&
  lon >= desert.lonMin && lon <= desert.lonMax)\<close>
\<close>

definition isDesertRegion :: "jsnum \<Rightarrow> jsnum \<Rightarrow> bool" where
  "isDesertRegion lat lon =
     list_ex (\<lambda>desert.
        num_ge lat (Fin (latMin desert)) \<and> num_le lat (Fin (latMax desert))
        \<and> num_ge lon (Fin (lonMin desert)) \<and> num_le lon (Fin (lonMax desert)))
       DESERT_REGIONS"

section \<open>Coordinate validation\<close>

text \<open>
  The two loops of \<open>validateCoordinate\<close>,
  \<^verbatim>\<open>while (normalized > 180) normalized -= 360;\<close> and
  \<^verbatim>\<open>while (normalized < -180) normalized += 360;\<close>.
  Nothing bounds the number of their rounds, so each is a partial function: \<open>None\<close>
  stands for a loop that never ends. The difference and the sum are rounded to a
  double, as the program's are: on a double of \<^verbatim>\<open>2^62\<close> or more in size, subtracting
  360 gives the same double back.
\<close>

partial_function (option) while_above_180 :: "jsnum \<Rightarrow> jsnum option" where
  "while_above_180 normalized =
     (if num_gt normalized (Fin 180)
      then while_above_180 (num_round (num_sub normalized (Fin 360)))
      else Some normalized)"

partial_function (option) while_below_minus_180 :: "jsnum \<Rightarrow> jsnum option" where
  "while_below_minus_180 normalized =
     (if num_lt normalized (Fin (- 180))
      then while_below_minus_180 (num_round (num_add normalized (Fin 360)))
      else Some normalized)"

text \<open>
  \<^verbatim>\<open>function validateCoordinate(coord, type) {
  if (isNaN(coord)) return null;
  if (type === 'lat') { return coord >= -90 && coord <= 90 ? coord : null; }
  else if (type === 'lon') { let normalized = coord; (the two loops) return normalized; }
  return null; }\<close>
  The result is \<open>Some\<close> of the value returned, or \<open>None\<close> when the call does not
  return.
\<close>

definition validateCoordinate :: "jsnum \<Rightarrow> string \<Rightarrow> jsval option" where
  "validateCoordinate coord type =
     (if is_NaN coord then Some Null
      else if type = ''lat'' then
        Some (if num_ge coord (Fin (- 90)) \<and> num_le coord (Fin 90) then Number coord else Null)
      else if type = ''lon'' then
        do {
          n1 \<leftarrow> while_above_180 coord;
          n2 \<leftarrow> while_below_minus_180 n1;
          Some (Number n2)
        }
      else Some Null)"

section \<open>Feels-like temperature, condition text and weather code\<close>

text \<open>
  \<open>calculateNASA_FeelsLike(temp, humidity, windSpeed, isDesert)\<close> on finite
  numbers. \<^verbatim>\<open>Math.pow(windSpeed * 3.6, 0.16)\<close> is the real power; it is reached
  only with a positive wind speed.
\<close>

definition calculateNASA_FeelsLike :: "real \<Rightarrow> real \<Rightarrow> real \<Rightarrow> bool \<Rightarrow> real" where
  "calculateNASA_FeelsLike temp humidity windSpeed isDesert =
     (if isDesert then
        (if temp \<ge> 30 then temp + (temp - 25) * 0.1
         else if temp \<le> 15 \<and> windSpeed > 2 then
           13.12 + 0.6215 * temp - 11.37 * (windSpeed * 3.6) powr 0.16
             + 0.3965 * temp * (windSpeed * 3.6) powr 0.16
         else temp)
      else
        (if temp \<ge> 27 then temp + 0.5 * (humidity / 100) * (temp - 20)
         else if temp \<le> 10 \<and> windSpeed > 1.34 then
           13.12 + 0.6215 * temp - 11.37 * (windSpeed * 3.6) powr 0.16
             + 0.3965 * temp * (windSpeed * 3.6) powr 0.16
         else temp))"

definition getNASA_WeatherCode :: "jsval \<Rightarrow> jsval \<Rightarrow> string" where
  "getNASA_WeatherCode precipitation humidity =
     (if js_gt precipitation (Number (Fin 12)) then ''11''
      else if js_gt precipitation (Number (Fin 6)) then ''10''
      else if js_gt precipitation (Number (Fin 2)) then ''09''
      else if js_gt precipitation (Number (Fin 0)) then ''09''
      else if js_gt humidity (Number (Fin 85)) then ''04''
      else if js_gt humidity (Number (Fin 70)) then ''03''
      else if js_gt humidity (Number (Fin 60)) then ''02''
      else ''01'')"

definition getNASA_WeatherCondition :: "jsval \<Rightarrow> jsval \<Rightarrow> bool \<Rightarrow> string" where
  "getNASA_WeatherCondition precipitation humidity isDesert =
     (if js_gt precipitation (Number (Fin 12)) then ''Thunderstorm''
      else if js_gt precipitation (Number (Fin 6)) then ''Heavy Rain''
      else if js_gt precipitation (Number (Fin 2)) then ''Rain''
      else if js_gt precipitation (Number (Fin 0)) then ''Light Rain''
      else if js_gt humidity (Number (Fin 85)) then ''Overcast''
      else if js_gt humidity (Number (Fin 70)) then ''Mostly Cloudy''
      else if js_gt humidity (Number (Fin 60)) then ''Partly Cloudy''
      else if isDesert \<and> js_lt humidity (Number (Fin 25)) then ''Clear and Dry''
      else if isDesert \<and> js_lt humidity (Number (Fin 35)) then ''Clear Sky''
      else if isDesert then ''Mostly Clear''
      else ''Clear Sky'')"

text \<open>
  The POWER adapter hands \<open>getNASA_ConditionsFromPOWER\<close> the \<^verbatim>\<open>parameter\<close> object
  of the provider's answer. Its two properties read here map a date to a value
  (\<^verbatim>\<open>undefined\<close> for a date that is not a key); a property that is missing
  altogether makes the read throw.
\<close>

datatype js_error = TypeError

record power_params =
  CLOUD_AMT :: "(string \<Rightarrow> jsval) option"
  PRECTOTCORR :: "(string \<Rightarrow> jsval) option"

text \<open>The recurring expression \<^verbatim>\<open>x ? parseFloat(x) : -999\<close>.\<close>

definition parse_or_sentinel :: "jsval \<Rightarrow> jsval" where
  "parse_or_sentinel x = (if truthy x then Number (parseFloat x) else Number (Fin (- 999)))"

section \<open>The synthetic climate model\<close>

text \<open>
  The model reads the clock and draws random numbers. The clock is a record of what
  \<^verbatim>\<open>new Date()\<close> gives during the request; \<^verbatim>\<open>Math.random\<close> is the sequence
  \<open>rnd\<close> of the values it returns, and every function that draws takes the number
  \<open>k\<close> of values drawn so far and returns it advanced.
\<close>

record clock =
  clk_month :: nat
  clk_hour :: nat
  clk_date :: "nat \<Rightarrow> string"
  clk_timestamp :: string

definition getRealisticTemperature :: "clock \<Rightarrow> jsnum \<Rightarrow> bool \<Rightarrow> real" where
  "getRealisticTemperature clk lat isDesert =
     (let absLat = math_abs lat;
          month = real (clk_month clk);
          currentHour = real (clk_hour clk)
      in if isDesert then
           (let baseTemp = (if num_lt absLat (Fin 25) then 35 else 30);
                seasonalVariation = sin ((month - 6) * pi / 6) * 8;
                diurnalVariation = sin ((currentHour - 12) * pi / 12) * 10
            in baseTemp + seasonalVariation + diurnalVariation)
         else if num_lt absLat (Fin 15) then 28 + sin ((month - 6) * pi / 6) * 2
         else if num_lt absLat (Fin 35) then 22 + sin ((month - 6) * pi / 6) * 6
         else if num_lt absLat (Fin 55) then 15 + sin ((month - 6) * pi / 6) * 10
         else 5 + sin ((month - 6) * pi / 6) * 8)"

definition getRealisticMaxTemperature ::
  "clock \<Rightarrow> (nat \<Rightarrow> real) \<Rightarrow> nat \<Rightarrow> jsnum \<Rightarrow> bool \<Rightarrow> real \<times> nat" where
  "getRealisticMaxTemperature clk rnd k lat isDesert =
     (let baseTemp = getRealisticTemperature clk lat isDesert
      in if isDesert then (baseTemp + 12 + rnd k * 5, Suc k)
         else (baseTemp + 5 + rnd k * 3, Suc k))"

definition getRealisticMinTemperature ::
  "clock \<Rightarrow> (nat \<Rightarrow> real) \<Rightarrow> nat \<Rightarrow> jsnum \<Rightarrow> bool \<Rightarrow> real \<times> nat" where
  "getRealisticMinTemperature clk rnd k lat isDesert =
     (let baseTemp = getRealisticTemperature clk lat isDesert
      in if isDesert then (baseTemp - 15 - rnd k * 5, Suc k)
         else (baseTemp - 3 - rnd k * 2, Suc k))"

definition getRealisticHumidity :: "(nat \<Rightarrow> real) \<Rightarrow> nat \<Rightarrow> jsnum \<Rightarrow> bool \<Rightarrow> real \<times> nat" where
  "getRealisticHumidity rnd k lat isDesert =
     (if isDesert then (20 + rnd k * 25, Suc k)
      else
        (let absLat = math_abs lat
         in if num_lt absLat (Fin 15) then (75 + rnd k * 10, Suc k)
            else if num_lt absLat (Fin 35) then (65 + rnd k * 15, Suc k)
            else (60 + rnd k * 20, Suc k)))"

definition getRealisticWindSpeed :: "(nat \<Rightarrow> real) \<Rightarrow> nat \<Rightarrow> jsnum \<Rightarrow> bool \<Rightarrow> real \<times> nat" where
  "getRealisticWindSpeed rnd k lat isDesert =
     (if isDesert then (3.5 + rnd k * 3, Suc k)
      else
        (let absLat = math_abs lat
         in if num_lt absLat (Fin 15) then (3.0 + rnd k * 2, Suc k)
            else if num_lt absLat (Fin 35) then (2.5 + rnd k * 1.5, Suc k)
            else (2.0 + rnd k * 1, Suc k)))"

text \<open>\<^verbatim>\<open>Math.random() < 0.03 ? Math.random() * 1 : 0\<close>: the second draw only after the first.\<close>

definition getRealisticPrecipitation :: "(nat \<Rightarrow> real) \<Rightarrow> nat \<Rightarrow> bool \<Rightarrow> real \<times> nat" where
  "getRealisticPrecipitation rnd k isDesert =
     (if isDesert then
        (if rnd k < 0.03 then (rnd (Suc k) * 1, Suc (Suc k)) else (0, Suc k))
      else
        (if rnd k < 0.3 then (rnd (Suc k) * 8, Suc (Suc k)) else (0, Suc k)))"

definition getRealisticCloudCover :: "(nat \<Rightarrow> real) \<Rightarrow> nat \<Rightarrow> bool \<Rightarrow> real \<times> nat" where
  "getRealisticCloudCover rnd k isDesert =
     (if isDesert then (5 + rnd k * 20, Suc k) else (30 + rnd k * 50, Suc k))"

definition getRealisticPressure :: "(nat \<Rightarrow> real) \<Rightarrow> nat \<Rightarrow> jsnum \<Rightarrow> real \<times> nat" where
  "getRealisticPressure rnd k lat =
     (let absLat = math_abs lat
      in if num_lt absLat (Fin 15) then (1010 + rnd k * 5, Suc k)
         else if num_lt absLat (Fin 35) then (1013 + rnd k * 5, Suc k)
         else (1015 + rnd k * 5, Suc k))"

text \<open>
  \<open>getNASA_ConditionsFromPOWER(params, dateStr, isDesert)\<close>. Both fallbacks are
  computed before they are needed: one draw for the cloud cover, then one or two for
  the precipitation.
\<close>

definition getNASA_ConditionsFromPOWER ::
  "(nat \<Rightarrow> real) \<Rightarrow> nat \<Rightarrow> power_params \<Rightarrow> string \<Rightarrow> bool \<Rightarrow> (js_error + string) \<times> nat" where
  "getNASA_ConditionsFromPOWER rnd k params dateStr isDesert =
     (case CLOUD_AMT params of
        None \<Rightarrow> (Inl TypeError, k)
      | Some cloud_amt \<Rightarrow>
         (case PRECTOTCORR params of
            None \<Rightarrow> (Inl TypeError, k)
          | Some prectotcorr \<Rightarrow>
             (let rawCloudCover = parse_or_sentinel (cloud_amt dateStr);
                  rawPrecipitation = parse_or_sentinel (prectotcorr dateStr);
                  (realisticCloud, k1) = getRealisticCloudCover rnd k isDesert;
                  cloudCover = getValidNASAValue rawCloudCover (Number (Fin realisticCloud));
                  (realisticPrecip, k2) = getRealisticPrecipitation rnd k1 isDesert;
                  precipitation = getValidNASAValue rawPrecipitation (Number (Fin realisticPrecip))
              in (Inr
                   (if js_gt precipitation (Number (Fin 10)) then ''Heavy Rain''
                    else if js_gt precipitation (Number (Fin 5)) then ''Rain''
                    else if js_gt precipitation (Number (Fin 2)) then ''Light Rain''
                    else if js_gt precipitation (Number (Fin 0)) then ''Drizzle''
                    else if js_gt cloudCover (Number (Fin 80)) then ''Overcast''
                    else if js_gt cloudCover (Number (Fin 50)) then ''Partly Cloudy''
                    else if js_gt cloudCover (Number (Fin 20)) then ''Mostly Clear''
                    else if isDesert then ''Clear and Dry'' else ''Clear Sky''), k2))))"

section \<open>Weather objects\<close>

text \<open>
  The objects the router builds, as records. A numeric property holds a value, with
  \<^verbatim>\<open>undefined\<close> for a property the object does not have; the prefixes \<open>c_\<close> and
  \<open>d_\<close> tell the properties of the \<^verbatim>\<open>current\<close> object from those of a forecast day.
\<close>

record current_weather =
  c_temperature :: jsval
  c_temperature_max :: jsval
  c_temperature_min :: jsval
  c_humidity :: jsval
  c_wind_speed :: jsval
  c_wind_speed_50m :: jsval
  c_precipitation :: jsval
  c_pressure :: jsval
  c_solar_radiation :: jsval
  c_cloud_cover :: jsval
  c_feels_like :: jsval
  c_conditions :: string
  c_weather_code :: string
  c_data_quality :: string
  c_provenance :: "(string \<times> string) list"

record forecast_day =
  d_date :: string
  d_temperature :: jsval
  d_max_temp :: jsval
  d_min_temp :: jsval
  d_precipitation :: jsval
  d_wind_speed :: jsval
  d_humidity :: jsval
  d_pressure :: jsval
  d_weather_code :: string
  d_conditions :: string
  d_feels_like :: jsval
  d_climate_note :: "string option"
  d_model_confidence :: jsval
  d_data_based_on :: "string option"
  d_confidence :: jsval

record historical =
  h_temperature :: "real list option"
  h_precipitation :: "real list option"
  h_wind :: "real list option"
  h_humidity :: "real list option"

record threshold_set =
  t_temperature :: jsval
  t_precipitation :: jsval
  t_windSpeed :: jsval

record probabilities_obj =
  temperature_above :: "int option"
  precipitation_above :: "int option"
  windspeed_above :: "int option"

text \<open>
  What the router observes of the parsed \<^verbatim>\<open>thresholds\<close> parameter: \<^verbatim>\<open>null\<close>, or a
  value with its own enumerable keys and the three properties read from it.
\<close>

datatype parsed_json = JsonNull | JsonValue "string list" threshold_set

text \<open>
  The \<^verbatim>\<open>location\<close> property: a name, the text \<^verbatim>\<open>Lat: ..., Lon: ...\<close> built from
  two coordinates, or the promise that \<open>generateNASA_Model_Data\<close> stores without
  awaiting it.
\<close>

datatype location_value = LocationName string | LatLonText jsnum jsnum | PendingPromise

record weather =
  current :: "current_weather option"
  forecast :: "forecast_day list option"
  location :: "location_value option"
  data_source :: "string option"
  nasa_mission :: "string option"
  climate_note :: "string option"
  disclaimer :: "string option"
  w_historicalData :: "historical option"
  w_lat :: jsval
  w_lon :: jsval
  w_isDesert :: "bool option"
  probabilities :: "probabilities_obj option"
  coordinates :: "(jsnum \<times> jsnum) option"
  units :: "(string \<times> string) list option"
  user_thresholds :: "parsed_json option"
  timestamp :: "string option"

section \<open>Synthetic forecast and full fallback data\<close>

text \<open>One round of the loop of \<open>generateNASA_ClimateForecast\<close>, for day \<open>i\<close>.\<close>

definition climate_forecast_day ::
  "clock \<Rightarrow> (nat \<Rightarrow> real) \<Rightarrow> nat \<Rightarrow> jsnum \<Rightarrow> bool \<Rightarrow> nat \<Rightarrow> forecast_day \<times> nat" where
  "climate_forecast_day clk rnd k lat isDesert i =
     (let baseTemp = getRealisticTemperature clk lat isDesert;
          (maxTemp, k1) = getRealisticMaxTemperature clk rnd k lat isDesert;
          (minTemp, k2) = getRealisticMinTemperature clk rnd k1 lat isDesert;
          (precipitation, k3) = getRealisticPrecipitation rnd k2 isDesert;
          (humidity, k4) = getRealisticHumidity rnd k3 lat isDesert;
          (windSpeed, k5) = getRealisticWindSpeed rnd k4 lat isDesert;
          (pressure, k6) = getRealisticPressure rnd k5 lat
      in (\<lparr>d_date = clk_date clk i,
           d_temperature = Number (Fin baseTemp),
           d_max_temp = Number (Fin maxTemp),
           d_min_temp = Number (Fin minTemp),
           d_precipitation = Number (Fin precipitation),
           d_wind_speed = Number (Fin windSpeed),
           d_humidity = Number (Fin humidity),
           d_pressure = Number (Fin pressure),
           d_weather_code = getNASA_WeatherCode (Number (Fin precipitation)) (Number (Fin humidity)),
           d_conditions =
             getNASA_WeatherCondition (Number (Fin precipitation)) (Number (Fin humidity)) isDesert,
           d_feels_like = Number (Fin (calculateNASA_FeelsLike baseTemp humidity windSpeed isDesert)),
           d_climate_note = Some (if isDesert then ''Desert Climate'' else ''Standard Climate''),
           d_model_confidence = Number (Fin (0.85 + rnd k6 * 0.1)),
           d_data_based_on = None,
           d_confidence = Undefined\<rparr>, Suc k6))"

text \<open>\<^verbatim>\<open>for (let i = 0; i < 7; i++) { ... forecast.push({...}); }\<close>, from round \<open>i\<close> on.\<close>

function climate_forecast_from ::
  "clock \<Rightarrow> (nat \<Rightarrow> real) \<Rightarrow> jsnum \<Rightarrow> bool \<Rightarrow> nat \<Rightarrow> nat \<Rightarrow> forecast_day list \<times> nat" where
  "climate_forecast_from clk rnd lat isDesert i k =
     (if i < 7 then
        (let dk = climate_forecast_day clk rnd k lat isDesert i;
             rest = climate_forecast_from clk rnd lat isDesert (Suc i) (snd dk)
         in (fst dk # fst rest, snd rest))
      else ([], k))"
  by pat_completeness auto
termination
  by (relation "measure (\<lambda>(clk, rnd, lat, isDesert, i, k). 7 - i)") auto

declare climate_forecast_from.simps [simp del]

definition generateNASA_ClimateForecast ::
  "clock \<Rightarrow> (nat \<Rightarrow> real) \<Rightarrow> nat \<Rightarrow> jsnum \<Rightarrow> jsnum \<Rightarrow> bool \<Rightarrow> forecast_day list \<times> nat" where
  "generateNASA_ClimateForecast clk rnd k lat lon isDesert =
     climate_forecast_from clk rnd lat isDesert 0 k"

text \<open>
  \<open>generateNASA_Model_Data(lat, lon, isDesert)\<close>. Reading \<^verbatim>\<open>forecast[0]\<close> of an
  empty array would throw. \<open>getLocationName\<close> is an async function and is not
  awaited here, so \<^verbatim>\<open>location\<close> is its promise, which is truthy.
\<close>

definition generateNASA_Model_Data ::
  "clock \<Rightarrow> (nat \<Rightarrow> real) \<Rightarrow> nat \<Rightarrow> jsnum \<Rightarrow> jsnum \<Rightarrow> bool \<Rightarrow> (js_error + weather) \<times> nat" where
  "generateNASA_Model_Data clk rnd k lat lon isDesert =
     (let (forecast, k1) = generateNASA_ClimateForecast clk rnd k lat lon isDesert
      in case forecast of
           [] \<Rightarrow> (Inl TypeError, k1)
         | day0 # _ \<Rightarrow>
            (Inr \<lparr>current = Some
                    \<lparr>c_temperature = d_temperature day0,
                     c_temperature_max = Undefined,
                     c_temperature_min = Undefined,
                     c_humidity = d_humidity day0,
                     c_wind_speed = d_wind_speed day0,
                     c_wind_speed_50m = Undefined,
                     c_precipitation = Undefined,
                     c_pressure = d_pressure day0,
                     c_solar_radiation = Undefined,
                     c_cloud_cover = Undefined,
                     c_feels_like = d_feels_like day0,
                     c_conditions = d_conditions day0,
                     c_weather_code = d_weather_code day0,
                     c_data_quality = ''NASA Climate Model Simulation'',
                     c_provenance =
                       [(''model'', ''GEOS-5 Atmospheric Model''),
                        (''simulation_type'', ''Numerical Weather Prediction'')]\<rparr>,
                  forecast = Some forecast,
                  location = Some PendingPromise,
                  data_source = Some ''NASA Climate Simulation'',
                  nasa_mission = Some ''Global Modeling and Assimilation Office'',
                  climate_note =
                    Some (if isDesert then ''Desert Climate Region'' else ''Standard Climate Region''),
                  disclaimer =
                    Some ''Data simulated using NASA climate models and historical patterns'',
                  w_historicalData = None,
                  w_lat = Undefined,
                  w_lon = Undefined,
                  w_isDesert = None,
                  probabilities = None,
                  coordinates = None,
                  units = None,
                  user_thresholds = None,
                  timestamp = None\<rparr>, k1))"

section \<open>The probability estimator\<close>

text \<open>
  \<^verbatim>\<open>if (!historicalData || historicalData.length === 0) return 50;
  const daysAboveThreshold = historicalData.filter(temp => temp > threshold).length;
  return Math.round((daysAboveThreshold / historicalData.length) * 100);\<close>
  A series is a list of finite numbers, \<open>None\<close> a series that is \<^verbatim>\<open>null\<close> or
  \<^verbatim>\<open>undefined\<close>. The quotient and the product are each rounded to a double; the
  quotient is at most 1 and the product about 100 at most, so neither overflows, and
  the result is an integer.
\<close>

definition calculateTemperatureProbability :: "jsval \<Rightarrow> jsval \<Rightarrow> real list option \<Rightarrow> int" where
  "calculateTemperatureProbability temperature threshold historicalData =
     (case historicalData of
        None \<Rightarrow> 50
      | Some h \<Rightarrow>
          if length h = 0 then 50
          else
            (let daysAboveThreshold = length (filter (\<lambda>temp. js_gt (Number (Fin temp)) threshold) h)
             in \<lfloor>round_to_double
                    (round_to_double (real daysAboveThreshold / real (length h)) * 100)
                  + 1 / 2\<rfloor>))"

definition calculatePrecipitationProbability :: "jsval \<Rightarrow> jsval \<Rightarrow> real list option \<Rightarrow> int" where
  "calculatePrecipitationProbability precipitation threshold historicalData =
     (case historicalData of
        None \<Rightarrow> 20
      | Some h \<Rightarrow>
          if length h = 0 then 20
          else
            (let daysAboveThreshold = length (filter (\<lambda>precip. js_gt (Number (Fin precip)) threshold) h)
             in \<lfloor>round_to_double
                    (round_to_double (real daysAboveThreshold / real (length h)) * 100)
                  + 1 / 2\<rfloor>))"

definition calculateWindProbability :: "jsval \<Rightarrow> jsval \<Rightarrow> real list option \<Rightarrow> int" where
  "calculateWindProbability windSpeed threshold historicalData =
     (case historicalData of
        None \<Rightarrow> 30
      | Some h \<Rightarrow>
          if length h = 0 then 30
          else
            (let daysAboveThreshold = length (filter (\<lambda>wind. js_gt (Number (Fin wind)) threshold) h)
             in \<lfloor>round_to_double
                    (round_to_double (real daysAboveThreshold / real (length h)) * 100)
                  + 1 / 2\<rfloor>))"

text \<open>The \<^verbatim>\<open>switch (dataType)\<close> of \<open>generateHistoricalData\<close>: the sample one round pushes, if any.\<close>

definition historical_sample :: "string \<Rightarrow> real \<Rightarrow> real \<Rightarrow> real \<Rightarrow> real \<Rightarrow> real \<Rightarrow> real option" where
  "historical_sample dataType base_temperature base_precipitation base_wind base_humidity variation =
     (if dataType = ''temperature'' then Some (base_temperature + variation * 8)
      else if dataType = ''precipitation'' then Some (max 0 (base_precipitation + variation * 3))
      else if dataType = ''wind'' then Some (max 0 (base_wind + variation * 2))
      else if dataType = ''humidity'' then Some (max 10 (min 100 (base_humidity + variation * 15)))
      else None)"

text \<open>\<^verbatim>\<open>for (let i = 0; i < days; i++)\<close>: \<open>n\<close> rounds left, one draw each.\<close>

fun historical_rounds :: "(real \<Rightarrow> real option) \<Rightarrow> (nat \<Rightarrow> real) \<Rightarrow> nat \<Rightarrow> nat \<Rightarrow> real list" where
  "historical_rounds sample rnd 0 k = []"
| "historical_rounds sample rnd (Suc n) k =
     (let variation = (rnd k - 0.5) * 2
      in (case sample variation of None \<Rightarrow> [] | Some x \<Rightarrow> [x])
           @ historical_rounds sample rnd n (Suc k))"

text \<open>\<open>generateHistoricalData(lat, lon, isDesert, dataType, days = 365)\<close>.\<close>

definition generateHistoricalData ::
  "clock \<Rightarrow> (nat \<Rightarrow> real) \<Rightarrow> nat \<Rightarrow> jsnum \<Rightarrow> jsnum \<Rightarrow> bool \<Rightarrow> string \<Rightarrow> nat \<Rightarrow> real list \<times> nat" where
  "generateHistoricalData clk rnd k lat lon isDesert dataType days =
     (let base_temperature = getRealisticTemperature clk lat isDesert;
          (base_precipitation, k1) = getRealisticPrecipitation rnd k isDesert;
          (base_wind, k2) = getRealisticWindSpeed rnd k1 lat isDesert;
          (base_humidity, k3) = getRealisticHumidity rnd k2 lat isDesert
      in (historical_rounds
            (historical_sample dataType base_temperature base_precipitation base_wind base_humidity)
            rnd days k3,
          k3 + days))"

text \<open>
  \<^verbatim>\<open>historicalData?.temperature || generateHistoricalData(weatherData.lat,
  weatherData.lon, weatherData.isDesert, 'temperature')\<close>, for any of the three series.
\<close>

definition series_or_generated ::
  "clock \<Rightarrow> (nat \<Rightarrow> real) \<Rightarrow> nat \<Rightarrow> weather \<Rightarrow> real list option \<Rightarrow> string \<Rightarrow> real list \<times> nat" where
  "series_or_generated clk rnd k weatherData series dataType =
     (case series of
        Some h \<Rightarrow> (h, k)
      | None \<Rightarrow>
          generateHistoricalData clk rnd k (to_number (w_lat weatherData))
            (to_number (w_lon weatherData))
            (case w_isDesert weatherData of None \<Rightarrow> False | Some b \<Rightarrow> b) dataType 365)"

text \<open>
  \<open>calculateProbabilities(weatherData, thresholds, historicalData)\<close>. A key of the
  result that is never assigned is \<open>None\<close>. Reading \<^verbatim>\<open>weatherData.current.temperature\<close>
  throws when there is no \<^verbatim>\<open>current\<close>.
\<close>

definition calculateProbabilities ::
  "clock \<Rightarrow> (nat \<Rightarrow> real) \<Rightarrow> nat \<Rightarrow> weather \<Rightarrow> threshold_set \<Rightarrow> historical option
     \<Rightarrow> (js_error + probabilities_obj) \<times> nat" where
  "calculateProbabilities clk rnd k weatherData thresholds historicalData =
     (let p0 = \<lparr>temperature_above = None, precipitation_above = None, windspeed_above = None\<rparr>;
          r1 =
            (if t_temperature thresholds \<noteq> Undefined then
               (let (tempHistorical, k1) =
                      series_or_generated clk rnd k weatherData
                        (Option.bind historicalData h_temperature) ''temperature''
                in case current weatherData of
                     None \<Rightarrow> (Inl TypeError, k1)
                   | Some c \<Rightarrow>
                       (Inr (p0\<lparr>temperature_above :=
                               Some (calculateTemperatureProbability (c_temperature c)
                                       (t_temperature thresholds) (Some tempHistorical))\<rparr>), k1))
             else (Inr p0, k))
      in case r1 of
           (Inl e, k1) \<Rightarrow> (Inl e, k1)
         | (Inr p1, k1) \<Rightarrow>
            (let r2 =
               (if t_precipitation thresholds \<noteq> Undefined then
                  (let (precipHistorical, k2) =
                         series_or_generated clk rnd k1 weatherData
                           (Option.bind historicalData h_precipitation) ''precipitation''
                   in case current weatherData of
                        None \<Rightarrow> (Inl TypeError, k2)
                      | Some c \<Rightarrow>
                          (Inr (p1\<lparr>precipitation_above :=
                                  Some (calculatePrecipitationProbability (c_precipitation c)
                                          (t_precipitation thresholds) (Some precipHistorical))\<rparr>), k2))
                else (Inr p1, k1))
             in case r2 of
                  (Inl e, k2) \<Rightarrow> (Inl e, k2)
                | (Inr p2, k2) \<Rightarrow>
                   (if t_windSpeed thresholds \<noteq> Undefined then
                      (let (windHistorical, k3) =
                             series_or_generated clk rnd k2 weatherData
                               (Option.bind historicalData h_wind) ''wind''
                       in case current weatherData of
                            None \<Rightarrow> (Inl TypeError, k3)
                          | Some c \<Rightarrow>
                              (Inr (p2\<lparr>windspeed_above :=
                                      Some (calculateWindProbability (c_wind_speed c)
                                              (t_windSpeed thresholds) (Some windHistorical))\<rparr>), k3))
                    else (Inr p2, k2))))"

section \<open>The response formatter\<close>

text \<open>
  \<^verbatim>\<open>if (value === null || value === undefined) return value;
  return Math.round(value * 10) / 10;\<close>
\<close>

definition formatToOneDecimal :: "jsval \<Rightarrow> jsval" where
  "formatToOneDecimal v =
     (if v = Null \<or> v = Undefined then v
      else Number (num_div (math_round (num_mul (to_number v) (Fin 10))) (Fin 10)))"

text \<open>
  \<^verbatim>\<open>if (value === null || value === undefined) return value;
  return `${Math.round(value)}%`;\<close>
\<close>

definition formatPercentage :: "jsval \<Rightarrow> jsval" where
  "formatPercentage v =
     (if v = Null \<or> v = Undefined then v
      else Str (integral_to_string (math_round (to_number v)) @ ''%''))"

text \<open>
  The assignments to the properties of \<^verbatim>\<open>formatted.current\<close>, in the order of the
  source; each reads only the property it assigns. The three guarded ones are
  \<^verbatim>\<open>if (formatted.current.wind_speed_50m !== undefined) ...\<close> and the like.
\<close>

definition format_current :: "current_weather \<Rightarrow> current_weather" where
  "format_current c =
     c\<lparr>c_humidity := formatPercentage (c_humidity c),
       c_temperature := formatToOneDecimal (c_temperature c),
       c_temperature_max := formatToOneDecimal (c_temperature_max c),
       c_temperature_min := formatToOneDecimal (c_temperature_min c),
       c_wind_speed := formatToOneDecimal (c_wind_speed c),
       c_wind_speed_50m :=
         (if c_wind_speed_50m c \<noteq> Undefined then formatToOneDecimal (c_wind_speed_50m c)
          else c_wind_speed_50m c),
       c_precipitation := formatToOneDecimal (c_precipitation c),
       c_pressure := formatToOneDecimal (c_pressure c),
       c_solar_radiation :=
         (if c_solar_radiation c \<noteq> Undefined then formatToOneDecimal (c_solar_radiation c)
          else c_solar_radiation c),
       c_cloud_cover :=
         (if c_cloud_cover c \<noteq> Undefined then formatPercentage (c_cloud_cover c)
          else c_cloud_cover c),
       c_feels_like := formatToOneDecimal (c_feels_like c)\<rparr>"

text \<open>The function mapped over \<^verbatim>\<open>formatted.forecast\<close>.\<close>

definition format_day :: "forecast_day \<Rightarrow> forecast_day" where
  "format_day day =
     day\<lparr>d_temperature := formatToOneDecimal (d_temperature day),
         d_max_temp := formatToOneDecimal (d_max_temp day),
         d_min_temp := formatToOneDecimal (d_min_temp day),
         d_precipitation := formatToOneDecimal (d_precipitation day),
         d_wind_speed := formatToOneDecimal (d_wind_speed day),
         d_humidity := formatPercentage (d_humidity day),
         d_pressure := formatToOneDecimal (d_pressure day),
         d_feels_like := formatToOneDecimal (d_feels_like day)\<rparr>"

text \<open>
  \<open>formatWeatherData(weatherObj)\<close>. \<open>format_weather\<close> is its body after the
  guard \<^verbatim>\<open>if (!weatherObj) return weatherObj;\<close>, for an argument that is an object;
  \<open>None\<close> is a falsy argument, returned as it is. The source copies the object one
  level deep and then assigns to the properties of the \<^verbatim>\<open>current\<close> object it
  shares with its argument; the model returns the formatted object.
\<close>

definition format_weather :: "weather \<Rightarrow> weather" where
  "format_weather formatted =
     formatted\<lparr>current := map_option format_current (current formatted),
               forecast := map_option (map format_day) (forecast formatted)\<rparr>"

definition formatWeatherData :: "weather option \<Rightarrow> weather option" where
  "formatWeatherData weatherObj =
     (case weatherObj of None \<Rightarrow> None | Some w \<Rightarrow> Some (format_weather w))"

section \<open>The route GET /weather\<close>

text \<open>
  A request carries the three query parameters the handler reads, each a string or
  absent. What the handler takes from outside is gathered in an environment: the
  entry \<^verbatim>\<open>QUERY_MISSING_ERR\<close> of the error table (the configuration file is read at
  start-up), the three provider adapters and the reverse geocoder (each catches its
  own errors and returns \<^verbatim>\<open>null\<close>, here \<open>None\<close>, when it fails), \<^verbatim>\<open>JSON.parse\<close>
  (\<open>None\<close> when it throws), the random sequence and the clock.
\<close>

record request =
  q_lat :: "string option"
  q_lon :: "string option"
  q_thresholds :: "string option"

record env =
  QUERY_MISSING_ERR :: "int \<times> string"
  tryNASA_POWER :: "jsnum \<Rightarrow> jsnum \<Rightarrow> bool \<Rightarrow> weather option"
  tryNASA_GMAO :: "jsnum \<Rightarrow> jsnum \<Rightarrow> bool \<Rightarrow> weather option"
  tryNASA_Worldview :: "jsnum \<Rightarrow> jsnum \<Rightarrow> bool \<Rightarrow> weather option"
  getLocationName :: "jsnum \<Rightarrow> jsnum \<Rightarrow> string option"
  JSON_parse :: "string \<Rightarrow> parsed_json option"
  Math_random :: "nat \<Rightarrow> real"
  Date_now :: clock

datatype http_body = ErrorBody int string | JsonBody "weather option"

text \<open>How a call of the handler ends: a response is sent, or an error escapes it.\<close>

datatype outcome = Response int http_body | Uncaught js_error

text \<open>\<^verbatim>\<open>x || fallback\<close> for a string that may be absent.\<close>

definition string_or :: "string option \<Rightarrow> string \<Rightarrow> string" where
  "string_or x fallback = (case x of None \<Rightarrow> fallback | Some s \<Rightarrow> if s = [] then fallback else s)"

definition empty_object :: parsed_json where
  "empty_object =
     JsonValue [] \<lparr>t_temperature = Undefined, t_precipitation = Undefined, t_windSpeed = Undefined\<rparr>"

text \<open>
  The \<^verbatim>\<open>catch\<close> block:
  \<^verbatim>\<open>const isDesert = isDesertRegion(parseFloat(lat), parseFloat(lon));
  const weatherData = generateNASA_Model_Data(parseFloat(lat), parseFloat(lon), isDesert);
  const formattedData = formatWeatherData(weatherData);
  res.status(200).json(formattedData);\<close>
\<close>

definition catch_block :: "env \<Rightarrow> nat \<Rightarrow> string \<Rightarrow> string \<Rightarrow> outcome" where
  "catch_block e k lat lon =
     (let isDesert = isDesertRegion (parseFloat (Str lat)) (parseFloat (Str lon));
          (weatherData, k1) =
             generateNASA_Model_Data (Date_now e) (Math_random e) k
               (parseFloat (Str lat)) (parseFloat (Str lon)) isDesert
      in case weatherData of
           Inl err \<Rightarrow> Uncaught err
         | Inr w \<Rightarrow> Response 200 (JsonBody (formatWeatherData (Some w))))"

text \<open>
  The \<^verbatim>\<open>try\<close> block from \<^verbatim>\<open>const isDesert = ...\<close> on, entered with two truthy
  validated coordinates, is modelled in the stages its comments mark.

  \<^verbatim>\<open>// Parse user thresholds\<close>: an absent, empty or unparsable parameter leaves \<^verbatim>\<open>{}\<close>.
\<close>

definition parse_user_thresholds :: "env \<Rightarrow> request \<Rightarrow> parsed_json" where
  "parse_user_thresholds e req =
     (case q_thresholds req of
        None \<Rightarrow> empty_object
      | Some t \<Rightarrow>
          if t = [] then empty_object
          else (case JSON_parse e t of None \<Rightarrow> empty_object | Some j \<Rightarrow> j))"

text \<open>
  The provider chain: POWER, then GMAO, then Worldview, each tried only when the one
  before returned \<^verbatim>\<open>null\<close>, and the climate model when all three did.
\<close>

definition fetch_weather_data ::
  "env \<Rightarrow> jsnum \<Rightarrow> jsnum \<Rightarrow> bool \<Rightarrow> (js_error + weather) \<times> nat" where
  "fetch_weather_data e validatedLat validatedLon isDesert =
     (case tryNASA_POWER e validatedLat validatedLon isDesert of
        Some w \<Rightarrow> (Inr w, 0)
      | None \<Rightarrow>
         (case tryNASA_GMAO e validatedLat validatedLon isDesert of
            Some w \<Rightarrow> (Inr w, 0)
          | None \<Rightarrow>
             (case tryNASA_Worldview e validatedLat validatedLon isDesert of
                Some w \<Rightarrow> (Inr w, 0)
              | None \<Rightarrow>
                  generateNASA_Model_Data (Date_now e) (Math_random e) 0
                    validatedLat validatedLon isDesert)))"

text \<open>\<^verbatim>\<open>// Add historical data for probability calculations\<close>: four generated series.\<close>

definition request_historical_data ::
  "clock \<Rightarrow> (nat \<Rightarrow> real) \<Rightarrow> nat \<Rightarrow> jsnum \<Rightarrow> jsnum \<Rightarrow> bool \<Rightarrow> historical \<times> nat" where
  "request_historical_data clk rnd k validatedLat validatedLon isDesert =
     (case generateHistoricalData clk rnd k validatedLat validatedLon isDesert ''temperature'' 365 of
        (ht, k2) \<Rightarrow>
     (case generateHistoricalData clk rnd k2 validatedLat validatedLon isDesert ''precipitation'' 365 of
        (hp, k3) \<Rightarrow>
     (case generateHistoricalData clk rnd k3 validatedLat validatedLon isDesert ''wind'' 365 of
        (hw, k4) \<Rightarrow>
     (case generateHistoricalData clk rnd k4 validatedLat validatedLon isDesert ''humidity'' 365 of
        (hh, k5) \<Rightarrow>
          (\<lparr>h_temperature = Some ht, h_precipitation = Some hp,
            h_wind = Some hw, h_humidity = Some hh\<rparr>, k5)))))"

text \<open>
  \<^verbatim>\<open>if (Object.keys(userThresholds).length > 0) { formattedData.probabilities =
  calculateProbabilities(formattedData, userThresholds, weatherData.historicalData); }\<close>
  \<^verbatim>\<open>Object.keys(null)\<close> throws.
\<close>

definition add_probabilities ::
  "clock \<Rightarrow> (nat \<Rightarrow> real) \<Rightarrow> nat \<Rightarrow> weather \<Rightarrow> parsed_json \<Rightarrow> historical option
     \<Rightarrow> (js_error + weather) \<times> nat" where
  "add_probabilities clk rnd k formattedData userThresholds historicalData =
     (case userThresholds of
        JsonNull \<Rightarrow> (Inl TypeError, k)
      | JsonValue keys thresholds \<Rightarrow>
          if length keys > 0 then
            (case calculateProbabilities clk rnd k formattedData thresholds historicalData of
               (Inl err, k') \<Rightarrow> (Inl err, k')
             | (Inr p, k') \<Rightarrow> (Inr (formattedData\<lparr>probabilities := Some p\<rparr>), k'))
          else (Inr formattedData, k))"

text \<open>
  \<^verbatim>\<open>// Add location and metadata\<close>: the object sent, spread from the formatted data.
  Of \<^verbatim>\<open>units\<close> the entry for the temperature, whose text is not ASCII, is left out.
\<close>

definition response_data ::
  "env \<Rightarrow> weather \<Rightarrow> weather \<Rightarrow> jsnum \<Rightarrow> jsnum \<Rightarrow> bool \<Rightarrow> parsed_json \<Rightarrow> weather" where
  "response_data e formattedData weatherData validatedLat validatedLon isDesert userThresholds =
     formattedData
       \<lparr>location :=
          Some (case getLocationName e validatedLat validatedLon of
                  None \<Rightarrow> LatLonText validatedLat validatedLon
                | Some n \<Rightarrow>
                    if n = [] then LatLonText validatedLat validatedLon else LocationName n),
        coordinates := Some (validatedLat, validatedLon),
        data_source := Some (string_or (data_source weatherData) ''NASA Climate Simulation''),
        nasa_mission :=
          Some (string_or (nasa_mission weatherData) ''Global Modeling and Assimilation Office''),
        climate_note :=
          Some (if isDesert then ''Desert Climate Region'' else ''Standard Climate Region''),
        units :=
          Some [(''humidity'', ''%''), (''wind_speed'', ''m/s''),
                (''precipitation'', ''mm''), (''pressure'', ''hPa'')],
        user_thresholds := Some userThresholds,
        timestamp := Some (clk_timestamp (Date_now e))\<rparr>"

text \<open>
  The whole block: the response it sends, or the error it throws, with the number of
  random values drawn.
\<close>

definition try_block :: "env \<Rightarrow> request \<Rightarrow> jsnum \<Rightarrow> jsnum \<Rightarrow> (js_error + outcome) \<times> nat" where
  "try_block e req validatedLat validatedLon =
     (let isDesert = isDesertRegion validatedLat validatedLon;
          userThresholds = parse_user_thresholds e req
      in case fetch_weather_data e validatedLat validatedLon isDesert of
           (Inl err, k1) \<Rightarrow> (Inl err, k1)
         | (Inr w0, k1) \<Rightarrow>
            (case request_historical_data (Date_now e) (Math_random e) k1
                    validatedLat validatedLon isDesert of
               (hist, k5) \<Rightarrow>
                 (let weatherData =
                        w0\<lparr>w_historicalData := Some hist,
                           w_lat := Number validatedLat,
                           w_lon := Number validatedLon,
                           w_isDesert := Some isDesert\<rparr>;
                      formattedData = format_weather weatherData
                  in case add_probabilities (Date_now e) (Math_random e) k5 formattedData
                            userThresholds (w_historicalData weatherData) of
                       (Inl err, k6) \<Rightarrow> (Inl err, k6)
                     | (Inr f, k6) \<Rightarrow>
                         (Inr (Response 200
                                (JsonBody
                                  (Some (response_data e f weatherData validatedLat
                                           validatedLon isDesert userThresholds)))), k6))))"

text \<open>
  The handler \<^verbatim>\<open>rt.get("/", async (req, res) => ...)\<close>. A query parameter is
  falsy (\<^verbatim>\<open>!lat\<close>) when it is absent or the empty string. \<open>None\<close>: the call never
  returns, because a loop of \<open>validateCoordinate\<close> does not end. Both coordinates
  are validated before either result is tested.
\<close>

definition get_weather :: "env \<Rightarrow> request \<Rightarrow> outcome option" where
  "get_weather e req =
     (let missing =
            Response (fst (QUERY_MISSING_ERR e))
              (ErrorBody (fst (QUERY_MISSING_ERR e)) (snd (QUERY_MISSING_ERR e)))
      in case q_lat req of
           None \<Rightarrow> Some missing
         | Some lat \<Rightarrow>
            (case q_lon req of
               None \<Rightarrow> Some missing
             | Some lon \<Rightarrow>
                if lat = [] \<or> lon = [] then Some missing
                else
                  do {
                    validatedLat \<leftarrow> validateCoordinate (parseFloat (Str lat)) ''lat'';
                    validatedLon \<leftarrow> validateCoordinate (parseFloat (Str lon)) ''lon'';
                    Some (if \<not> truthy validatedLat \<or> \<not> truthy validatedLon
                          then catch_block e 0 lat lon
                          else
                            (case try_block e req (to_number validatedLat)
                                    (to_number validatedLon) of
                               (Inl err, k) \<Rightarrow> catch_block e k lat lon
                             | (Inr r, k) \<Rightarrow> r))
                  }))"

section \<open>Reference definitions and sample inputs\<close>



text \<open>
  The value the POWER derivation of the condition text works with, for a value \<open>v\<close>
  the provider gave and a synthetic fallback: \<open>v\<close> read as a number when \<open>v\<close> is
  truthy and that number is above -900, the fallback otherwise.
\<close>

definition power_value :: "jsval \<Rightarrow> real \<Rightarrow> jsnum" where
  "power_value v fallback =
     (if truthy v \<and> num_gt (parseFloat v) (Fin (- 900)) then parseFloat v else Fin fallback)"

text \<open>A string that ends with a percent sign.\<close>

definition ends_pct :: "string \<Rightarrow> bool" where
  "ends_pct s = (s \<noteq> [] \<and> last s = CHR ''%'')"

text \<open>Sample inputs, for evaluating the functions at concrete values.\<close>

definition sample_random :: "nat \<Rightarrow> real" where
  "sample_random k = 1 / 2"

definition sample_date :: "nat \<Rightarrow> string" where
  "sample_date i = ''2025-07-0'' @ nat_to_string (Suc i)"

definition sample_clock :: clock where
  "sample_clock =
     \<lparr>clk_month = 6, clk_hour = 12, clk_date = sample_date,
      clk_timestamp = ''2025-07-01T12:00:00.000Z''\<rparr>"

text \<open>An adapter, and a geocoder, with the network down; a parser that rejects its input.\<close>

definition adapter_down :: "jsnum \<Rightarrow> jsnum \<Rightarrow> bool \<Rightarrow> weather option" where
  "adapter_down lat lon isDesert = None"

definition geocoder_down :: "jsnum \<Rightarrow> jsnum \<Rightarrow> string option" where
  "geocoder_down lat lon = None"

definition parse_rejects :: "string \<Rightarrow> parsed_json option" where
  "parse_rejects t = None"

definition sample_env :: env where
  "sample_env =
     \<lparr>QUERY_MISSING_ERR = (400, ''Missing required query parameters''),
      tryNASA_POWER = adapter_down, tryNASA_GMAO = adapter_down,
      tryNASA_Worldview = adapter_down, getLocationName = geocoder_down,
      JSON_parse = parse_rejects, Math_random = sample_random, Date_now = sample_clock\<rparr>"

definition sample_cloud_amt :: "string \<Rightarrow> jsval" where
  "sample_cloud_amt dateStr = (if dateStr = ''20250701'' then Number (Fin 50) else Undefined)"

definition sample_prectotcorr :: "string \<Rightarrow> jsval" where
  "sample_prectotcorr dateStr = (if dateStr = ''20250701'' then Number (Fin 13) else Undefined)"

text \<open>A provider that reports no precipitation, and draws that make the fallback rain.\<close>

definition sample_prectotcorr_zero :: "string \<Rightarrow> jsval" where
  "sample_prectotcorr_zero dateStr = Number (Fin 0)"

definition sample_random_low :: "nat \<Rightarrow> real" where
  "sample_random_low k = 1 / 4"

definition sample_power_params :: power_params where
  "sample_power_params =
     \<lparr>CLOUD_AMT = Some sample_cloud_amt, PRECTOTCORR = Some sample_prectotcorr\<rparr>"

definition sample_current :: current_weather where
  "sample_current =
     \<lparr>c_temperature = Number (Fin 21.46), c_temperature_max = Undefined,
      c_temperature_min = Undefined, c_humidity = Number (Fin 65),
      c_wind_speed = Number (Fin 3.04), c_wind_speed_50m = Undefined,
      c_precipitation = Undefined, c_pressure = Number (Fin 1013.25),
      c_solar_radiation = Undefined, c_cloud_cover = Undefined,
      c_feels_like = Number (Fin 21.46), c_conditions = ''Partly Cloudy'',
      c_weather_code = ''02'', c_data_quality = ''NASA GEOS Forecast Model'',
      c_provenance = [(''model_resolution'', ''0.25 degree grid spacing'')]\<rparr>"

definition sample_day :: forecast_day where
  "sample_day =
     \<lparr>d_date = ''2025-07-01'', d_temperature = Number (Fin 21.46),
      d_max_temp = Number (Fin 26.02), d_min_temp = Number (Fin 17.5),
      d_precipitation = Number (Fin 0), d_wind_speed = Number (Fin 3.04),
      d_humidity = Number (Fin 65), d_pressure = Number (Fin 1013.25),
      d_weather_code = ''02'', d_conditions = ''Partly Cloudy'',
      d_feels_like = Number (Fin 21.46), d_climate_note = None,
      d_model_confidence = Undefined, d_data_based_on = None, d_confidence = Undefined\<rparr>"

definition sample_weather :: weather where
  "sample_weather =
     \<lparr>current = Some sample_current, forecast = Some [sample_day],
      location = None, data_source = None, nasa_mission = None, climate_note = None,
      disclaimer = None, w_historicalData = None, w_lat = Undefined, w_lon = Undefined,
      w_isDesert = None, probabilities = None, coordinates = None, units = None,
      user_thresholds = None, timestamp = None\<rparr>"

section \<open>Rounding to a double: properties\<close>

text \<open>The binade of a real is fixed by the two powers of two around it.\<close>

lemma binade_eqI:
  assumes "2 powi k \<le> \<bar>x\<bar>" "\<bar>x\<bar> < 2 powi (k + 1)"
  shows "binade x = k"
proof -
  have pos: "0 < \<bar>x\<bar>" using assms(1) zero_less_power_int [of "2::real" k] by linarith
  have "(2::real) powr real_of_int k = 2 powi k" "(2::real) powr (real_of_int k + 1) = 2 powi (k + 1)"
    using powr_real_of_int' [of "2::real" k] powr_real_of_int' [of "2::real" "k + 1"]
    by (simp_all add: add.commute)
  with assms have "2 powr real_of_int k \<le> \<bar>x\<bar> \<and> \<bar>x\<bar> < 2 powr (real_of_int k + 1)"
    by (simp add: add.commute)
  with pos show ?thesis unfolding binade_def
    by (subst floor_log_eq_powr_iff) auto
qed

lemma binade_bounds:
  assumes "x \<noteq> 0"
  shows "2 powi binade x \<le> \<bar>x\<bar>" "\<bar>x\<bar> < 2 powi (binade x + 1)"
proof -
  have pos: "0 < \<bar>x\<bar>" using assms by simp
  have "2 powr real_of_int (binade x) \<le> \<bar>x\<bar> \<and> \<bar>x\<bar> < 2 powr (real_of_int (binade x) + 1)"
    using floor_log_eq_powr_iff [of "\<bar>x\<bar>" 2 "binade x"] pos by (simp add: binade_def)
  moreover have "(2::real) powr real_of_int (binade x) = 2 powi binade x"
    "(2::real) powr (real_of_int (binade x) + 1) = 2 powi (binade x + 1)"
    using powr_real_of_int' [of "2::real" "binade x"] powr_real_of_int' [of "2::real" "binade x + 1"]
    by (simp_all add: add.commute)
  ultimately show "2 powi binade x \<le> \<bar>x\<bar>" "\<bar>x\<bar> < 2 powi (binade x + 1)" by simp_all
qed

lemma round_half_even_of_int [simp]: "round_half_even (of_int n) = n"
  by (simp add: round_half_even_def)


text \<open>Rounding leaves a double as it is, and a double is below \<^verbatim>\<open>2^1024\<close> in size.\<close>

lemma round_to_double_exact:
  assumes "is_double x"
  shows "round_to_double x = x"
proof (cases "x = 0")
  case True then show ?thesis by (simp add: round_to_double_def)
next
  case False
  from assms obtain m e :: int where x: "x = of_int m * 2 powi e" and m: "\<bar>m\<bar> < 2 ^ 53"
    and e: "- 1074 \<le> e" "e \<le> 971" unfolding is_double_def by blast
  let ?u = "ulp_exponent x"
  have ax: "\<bar>x\<bar> = of_int \<bar>m\<bar> * 2 powi e" by (simp add: x abs_mult)
  have "\<bar>x\<bar> < 2 ^ 53 * 2 powi e"
  proof -
    have "real_of_int \<bar>m\<bar> < 2 ^ 53" using m by (metis of_int_less_iff of_int_numeral of_int_power)
    then show ?thesis unfolding ax by (intro mult_strict_right_mono) simp_all
  qed
  also have "\<dots> = 2 powi (e + 53)" by (simp add: power_int_add)
  finally have lt: "\<bar>x\<bar> < 2 powi (e + 53)" .
  have "binade x < e + 53"
  proof (rule ccontr)
    assume "\<not> binade x < e + 53"
    then have "e + 53 \<le> binade x" by simp
    then have "(2::real) powi (e + 53) \<le> 2 powi binade x" by (intro power_int_increasing) simp_all
    with binade_bounds(1) [OF False] lt show False by linarith
  qed
  with e have ue: "?u \<le> e" by (simp add: ulp_exponent_def)
  have "x / 2 powi ?u = of_int m * 2 powi (e - ?u)"
    by (simp add: x power_int_diff)
  also have "\<dots> = of_int (m * 2 ^ nat (e - ?u))" using ue by (simp add: power_int_def)
  finally have q: "x / 2 powi ?u = of_int (m * 2 ^ nat (e - ?u))" .
  have "round_to_double x = of_int (m * 2 ^ nat (e - ?u)) * 2 powi ?u"
    using False unfolding round_to_double_def q by (simp only: round_half_even_of_int if_False)
  also have "\<dots> = x / 2 powi ?u * 2 powi ?u" by (simp only: q)
  also have "\<dots> = x" by simp
  finally show ?thesis .
qed

lemma is_double_less_max:
  assumes "is_double x"
  shows "\<bar>x\<bar> < 2 ^ 1024"
proof -
  from assms obtain m e :: int where x: "x = of_int m * 2 powi e" and m: "\<bar>m\<bar> < 2 ^ 53"
    and e: "- 1074 \<le> e" "e \<le> 971" unfolding is_double_def by blast
  have "real_of_int \<bar>m\<bar> < 2 ^ 53" using m by (metis of_int_less_iff of_int_numeral of_int_power)
  moreover have "(2::real) powi e \<le> 2 powi 971" using e by (intro power_int_increasing) simp_all
  moreover have "(0::real) < 2 powi e" by simp
  ultimately have "real_of_int \<bar>m\<bar> * 2 powi e < 2 ^ 53 * 2 powi 971"
    by (intro mult_less_le_imp_less) simp_all
  also have "\<dots> = 2 ^ 1024" by simp
  finally show ?thesis by (simp add: x abs_mult)
qed

lemma double_of_exact: "is_double x \<Longrightarrow> double_of x = Fin x"
  using is_double_less_max [of x] by (simp add: double_of_def round_to_double_exact)

text \<open>Integers below \<^verbatim>\<open>2^53\<close> in size are doubles.\<close>

lemma is_double_of_int: "\<bar>n\<bar> < 2 ^ 53 \<Longrightarrow> is_double (of_int n)"
  unfolding is_double_def by (rule exI [of _ n], rule exI [of _ 0], simp)

lemma double_of_numeral [simp]:
  "(numeral w :: int) < 2 ^ 53 \<Longrightarrow> double_of (numeral w) = Fin (numeral w)"
  using double_of_exact [OF is_double_of_int [of "numeral w"]] by simp

lemma double_of_neg_numeral [simp]:
  "(numeral w :: int) < 2 ^ 53 \<Longrightarrow> double_of (- numeral w) = Fin (- numeral w)"
  using double_of_exact [OF is_double_of_int [of "- numeral w"]] by simp

lemma double_of_0 [simp]: "double_of 0 = Fin 0"
  using double_of_exact [OF is_double_of_int [of 0]] by simp

lemma double_of_1 [simp]: "double_of 1 = Fin 1"
  using double_of_exact [OF is_double_of_int [of 1]] by simp

lemma is_double_minus: "is_double (- x) = is_double x"
proof -
  have "is_double (- y)" if "is_double y" for y
  proof -
    from that obtain m e :: int where "y = of_int m * 2 powi e" "\<bar>m\<bar> < 2 ^ 53" "- 1074 \<le> e" "e \<le> 971"
      unfolding is_double_def by blast
    then show ?thesis unfolding is_double_def
      by - (rule exI [of _ "- m"], rule exI [of _ e], simp)
  qed
  from this [of x] this [of "- x"] show ?thesis by auto
qed

text \<open>
  A double below \<^verbatim>\<open>2^56\<close> in size is a multiple of 8 or of a smaller power of two,
  and 360 is a multiple of 8: subtracting 360 from such a double above 180 gives a
  double, with no rounding.
\<close>

lemma is_double_small_exponent:
  assumes "is_double x" "\<bar>x\<bar> < 2 ^ 56"
  shows "\<exists>m e :: int. x = of_int m * 2 powi e \<and> \<bar>m\<bar> < 2 ^ 53 \<and> - 1074 \<le> e \<and> e \<le> 3"
proof -
  from assms(1) obtain m e :: int where x: "x = of_int m * 2 powi e" and m: "\<bar>m\<bar> < 2 ^ 53"
    and e: "- 1074 \<le> e" "e \<le> 971" unfolding is_double_def by blast
  show ?thesis
  proof (cases "e \<le> 3")
    case True
    with x m e show ?thesis by blast
  next
    case False
    define n where "n = nat (e - 3)"
    have e3: "e = 3 + int n" using False by (simp add: n_def)
    have x': "x = of_int (m * 2 ^ n) * 2 powi 3"
      by (simp add: x e3 power_int_add)
    have "\<bar>x\<bar> = of_int \<bar>m * 2 ^ n\<bar> * 8" unfolding x' by (simp add: abs_mult)
    with assms(2) have "real_of_int \<bar>m * 2 ^ n\<bar> * 8 < 2 ^ 56" by simp
    then have "real_of_int \<bar>m * 2 ^ n\<bar> < 2 ^ 53" by simp
    then have "\<bar>m * 2 ^ n\<bar> < 2 ^ 53" by (metis of_int_less_iff of_int_numeral of_int_power)
    with x' show ?thesis by - (rule exI [of _ "m * 2 ^ n"], rule exI [of _ 3], simp)
  qed
qed

lemma is_double_minus_360:
  assumes d: "is_double x" and lo: "180 < x" and hi: "x < 2 ^ 56"
  shows "is_double (x - 360)"
proof -
  from is_double_small_exponent [OF d] lo hi
  obtain m e :: int where x: "x = of_int m * 2 powi e" and m: "\<bar>m\<bar> < 2 ^ 53"
    and e: "- 1074 \<le> e" "e \<le> 3" by auto
  define n where "n = nat (3 - e)"
  have e3: "3 = e + int n" using e by (simp add: n_def)
  have "(360::real) = of_int (45 * 2 ^ n) * 2 powi e"
  proof -
    have "(2::real) powi 3 = 2 powi e * 2 powi (int n)" by (subst e3) (simp add: power_int_add)
    then show ?thesis by simp
  qed
  then have diff: "x - 360 = of_int (m - 45 * 2 ^ n) * 2 powi e"
    by (simp add: x algebra_simps)
  have p: "(0::real) < 2 powi e" by simp
  have "\<bar>x - 360\<bar> < x" using lo by (simp add: abs_if)
  then have "\<bar>real_of_int (m - 45 * 2 ^ n) * 2 powi e\<bar> < real_of_int m * 2 powi e"
    unfolding diff [symmetric] x [symmetric] .
  then have "real_of_int \<bar>m - 45 * 2 ^ n\<bar> * 2 powi e < of_int m * 2 powi e"
    by (simp add: abs_mult)
  then have "real_of_int \<bar>m - 45 * 2 ^ n\<bar> < of_int m" using p by (simp only: mult_less_cancel_right_pos)
  then have "\<bar>m - 45 * 2 ^ n\<bar> < m" by linarith
  with m have "\<bar>m - 45 * 2 ^ n\<bar> < 2 ^ 53" by linarith
  with diff e show ?thesis unfolding is_double_def
    by - (rule exI [of _ "m - 45 * 2 ^ n"], rule exI [of _ e], simp)
qed

lemma is_double_plus_360:
  assumes d: "is_double x" and lo: "x < - 180" and hi: "- (2 ^ 56) < x"
  shows "is_double (x + 360)"
proof -
  have "is_double (- x - 360)"
    using d lo hi by (intro is_double_minus_360) (simp_all add: is_double_minus)
  then have "is_double (- (x + 360))" by (simp add: algebra_simps)
  then show ?thesis by (simp only: is_double_minus)
qed

text \<open>Rounding evaluated: the binade, then the quotient by the unit in the last place.\<close>

lemma round_to_double_eqI:
  assumes "2 powi k \<le> \<bar>x\<bar>" "\<bar>x\<bar> < 2 powi (k + 1)" "- 1022 \<le> k"
    and "round_half_even (x / 2 powi (k - 52)) = n"
  shows "round_to_double x = of_int n * 2 powi (k - 52)"
proof -
  have b: "binade x = k" using assms(1,2) by (rule binade_eqI)
  have "x \<noteq> 0"
  proof
    assume "x = 0"
    with assms(1) have "2 powi k \<le> (0::real)" by simp
    moreover have "(0::real) < 2 powi k" by (rule zero_less_power_int) simp
    ultimately show False by linarith
  qed
  have "ulp_exponent x = k - 52" using assms(3) by (simp add: ulp_exponent_def b)
  then show ?thesis using \<open>x \<noteq> 0\<close> by (simp add: round_to_double_def assms(4))
qed

lemma round_to_double_1e19: "round_to_double (10 ^ 19 - 360) = 10 ^ 19"
  by (subst round_to_double_eqI [where k = 63 and n = 4882812500000000])
    (simp_all add: round_half_even_def)










lemma is_double_1e19: "is_double (10 ^ 19)"
  unfolding is_double_def by (rule exI [of _ 19073486328125], rule exI [of _ 19], simp)

lemma double_of_1e19: "double_of (10 ^ 19 - 360) = Fin (10 ^ 19)"
  unfolding double_of_def round_to_double_1e19 by simp




section \<open>Properties of the sentinel validator\<close>

text \<open>
  C2 (as amended). \<open>isValidNASAValue\<close> is true exactly when the value is neither
  \<^verbatim>\<open>undefined\<close> nor \<^verbatim>\<open>null\<close> and compares greater than -900; for a finite
  number \<open>x\<close> that is \<open>-900 < x\<close>. So -999, -900.1 and \<^verbatim>\<open>undefined\<close> are
  rejected and -899.9 is accepted, as specified, but -900 itself and \<open>NaN\<close>
  are rejected too: the test in the source is \<^verbatim>\<open>value > -900\<close>, not
  \<^verbatim>\<open>!(value < -900)\<close>.
\<close>

theorem isValidNASAValue_characterisation:
  "(isValidNASAValue v \<longleftrightarrow>
      v \<noteq> Undefined \<and> v \<noteq> Null \<and> num_gt (to_number v) (Fin (- 900)))
   \<and> (isValidNASAValue (Number (Fin x)) \<longleftrightarrow> - 900 < x)
   \<and> \<not> isValidNASAValue (Number NaN)
   \<and> \<not> isValidNASAValue (Number (Fin (- 999)))
   \<and> \<not> isValidNASAValue (Number (Fin (- 900.1)))
   \<and> isValidNASAValue (Number (Fin (- 899.9)))
   \<and> \<not> isValidNASAValue Undefined
   \<and> \<not> isValidNASAValue (Number (Fin (- 900)))"
  by (cases v) (auto simp: isValidNASAValue_def js_strict_eq_def)

text \<open>
  The rule of C2 as it is stated (true unless the value is \<^verbatim>\<open>undefined\<close>,
  \<^verbatim>\<open>null\<close>, exactly -999 or less than -900) fails at -900: none of the four
  exclusions applies, and the function returns false.
\<close>

theorem isValidNASAValue_stated_rule_fails_at_minus_900:
  "\<not> (isValidNASAValue (Number (Fin (- 900))) \<longleftrightarrow>
      \<not> (Number (Fin (- 900)) = Undefined \<or> Number (Fin (- 900)) = Null
         \<or> Number (Fin (- 900)) = Number (Fin (- 999))
         \<or> js_lt (Number (Fin (- 900))) (Number (Fin (- 900)))))"
  by (simp add: isValidNASAValue_def js_strict_eq_def js_lt_def)

text \<open>
  C3 (as amended). For every value and every fallback other than \<^verbatim>\<open>undefined\<close>,
  \<open>getValidNASAValue\<close> returns the fallback when the value is not valid and the
  value itself, unchanged, when it is; so the result is the fallback exactly when the
  value is invalid (or is the fallback). A fallback that is left out or is
  \<^verbatim>\<open>undefined\<close> is replaced by the parameter's default 0.
\<close>

theorem getValidNASAValue_resolves:
  "(d \<noteq> Undefined \<longrightarrow>
      (\<not> isValidNASAValue v \<longrightarrow> getValidNASAValue v d = d)
      \<and> (isValidNASAValue v \<longrightarrow> getValidNASAValue v d = v)
      \<and> (getValidNASAValue v d = d \<longleftrightarrow> \<not> isValidNASAValue v \<or> v = d))
   \<and> getValidNASAValue v Undefined = (if isValidNASAValue v then v else Number (Fin 0))"
  by (auto simp: getValidNASAValue_def)

theorem getValidNASAValue_resolves_witness:
  "Null \<noteq> Undefined
   \<and> \<not> isValidNASAValue (Number (Fin (- 999)))
   \<and> getValidNASAValue (Number (Fin (- 999))) Null = Null
   \<and> isValidNASAValue (Number (Fin 21.5))
   \<and> getValidNASAValue (Number (Fin 21.5)) Null = Number (Fin 21.5)"
  using getValidNASAValue_resolves [of Null "Number (Fin (- 999))"]
    getValidNASAValue_resolves [of Null "Number (Fin 21.5)"]
  by (simp add: isValidNASAValue_def js_strict_eq_def)

text \<open>
  C3 as it is stated fails for the fallback \<^verbatim>\<open>undefined\<close>: the value -999 is
  invalid, and the result is 0, not the fallback.
\<close>

theorem getValidNASAValue_undefined_fallback_counterexample:
  "\<not> isValidNASAValue (Number (Fin (- 999)))
   \<and> getValidNASAValue (Number (Fin (- 999))) Undefined = Number (Fin 0)
   \<and> getValidNASAValue (Number (Fin (- 999))) Undefined \<noteq> Undefined"
  by (simp add: getValidNASAValue_def isValidNASAValue_def js_strict_eq_def)

section \<open>The desert region classifier: properties\<close>

text \<open>
  C4. For every latitude in [-90, 90] and longitude in [-180, 180], \<open>isDesertRegion\<close>
  is true exactly when the point lies in at least one of the eight boxes of the table
  (Sahara, Arabian, Gobi, Australian, North American, Kalahari, Thar, Syrian), every
  edge of a box included.
\<close>

theorem isDesertRegion_iff_in_a_box:
  assumes "- 90 \<le> lat" "lat \<le> 90" "- 180 \<le> lon" "lon \<le> 180"
  shows "isDesertRegion (Fin lat) (Fin lon) \<longleftrightarrow>
      (15 \<le> lat \<and> lat \<le> 30 \<and> - 20 \<le> lon \<and> lon \<le> 50)
    \<or> (15 \<le> lat \<and> lat \<le> 30 \<and> 35 \<le> lon \<and> lon \<le> 60)
    \<or> (35 \<le> lat \<and> lat \<le> 50 \<and> 85 \<le> lon \<and> lon \<le> 120)
    \<or> (- 30 \<le> lat \<and> lat \<le> - 20 \<and> 120 \<le> lon \<and> lon \<le> 150)
    \<or> (25 \<le> lat \<and> lat \<le> 40 \<and> - 120 \<le> lon \<and> lon \<le> - 100)
    \<or> (- 25 \<le> lat \<and> lat \<le> - 15 \<and> 15 \<le> lon \<and> lon \<le> 25)
    \<or> (20 \<le> lat \<and> lat \<le> 30 \<and> 65 \<le> lon \<and> lon \<le> 75)
    \<or> (30 \<le> lat \<and> lat \<le> 35 \<and> 35 \<le> lon \<and> lon \<le> 45)"
  by (simp add: isDesertRegion_def DESERT_REGIONS_def num_ge_def num_le_def num_lt_def num_eq_def
      less_eq_real_def)

theorem isDesertRegion_iff_in_a_box_witness:
  "isDesertRegion (Fin 30) (Fin 50) \<and> isDesertRegion (Fin (- 25)) (Fin 15)
   \<and> \<not> isDesertRegion (Fin 30.5) (Fin 50) \<and> \<not> isDesertRegion (Fin 0) (Fin 0)"
  using isDesertRegion_iff_in_a_box [of 30 50] isDesertRegion_iff_in_a_box [of "- 25" 15]
    isDesertRegion_iff_in_a_box [of "30.5" 50] isDesertRegion_iff_in_a_box [of 0 0]
  by simp

section \<open>Coordinate validation: properties\<close>

text \<open>
  A value above 180 that subtracting 360 does not change never leaves the first loop,
  and likewise below -180 in the second: so it is for the infinities, and for a
  double as large as \<^verbatim>\<open>1e19\<close>.
\<close>

lemma while_above_180_stuck:
  assumes "num_gt a (Fin 180)" "num_round (num_sub a (Fin 360)) = a"
  shows "while_above_180 a = None"
proof -
  have "while_above_180 n = Some y \<Longrightarrow> n \<noteq> a" for n y
  proof (rule while_above_180.raw_induct [where P = "\<lambda>n y. n \<noteq> a"])
    fix f :: "jsnum \<Rightarrow> jsnum option" and m z
    assume ih: "\<And>x y. f x = Some y \<Longrightarrow> x \<noteq> a"
      and st: "(if num_gt m (Fin 180) then f (num_round (num_sub m (Fin 360))) else Some m)
                 = Some z"
    show "m \<noteq> a"
    proof
      assume "m = a"
      with st assms have "f a = Some z" by simp
      with ih show False by blast
    qed
  qed
  then show ?thesis by (cases "while_above_180 a") auto
qed

lemma while_below_minus_180_stuck:
  assumes "num_lt a (Fin (- 180))" "num_round (num_add a (Fin 360)) = a"
  shows "while_below_minus_180 a = None"
proof -
  have "while_below_minus_180 n = Some y \<Longrightarrow> n \<noteq> a" for n y
  proof (rule while_below_minus_180.raw_induct [where P = "\<lambda>n y. n \<noteq> a"])
    fix f :: "jsnum \<Rightarrow> jsnum option" and m z
    assume ih: "\<And>x y. f x = Some y \<Longrightarrow> x \<noteq> a"
      and st: "(if num_lt m (Fin (- 180)) then f (num_round (num_add m (Fin 360))) else Some m)
                 = Some z"
    show "m \<noteq> a"
    proof
      assume "m = a"
      with st assms have "f a = Some z" by simp
      with ih show False by blast
    qed
  qed
  then show ?thesis by (cases "while_below_minus_180 a") auto
qed

lemma while_above_180_PInf: "while_above_180 PInf = None"
  by (rule while_above_180_stuck) (simp_all add: num_sub_def)

lemma validateCoordinate_PInf: "validateCoordinate PInf ''lon'' = None"
  by (simp add: validateCoordinate_def is_NaN_def while_above_180_PInf)

lemma validateCoordinate_NInf: "validateCoordinate NInf ''lon'' = None"
proof -
  have "while_below_minus_180 NInf = None"
    by (rule while_below_minus_180_stuck) (simp_all add: num_lt_def)
  then show ?thesis
    by (simp add: validateCoordinate_def is_NaN_def while_above_180.simps [of NInf])
qed

lemma validateCoordinate_1e19: "validateCoordinate (Fin (10 ^ 19)) ''lon'' = None"
proof -
  have "num_round (num_sub (Fin (10 ^ 19)) (Fin 360)) = Fin (10 ^ 19)"
    unfolding num_sub_def num_neg.simps num_add.simps num_round.simps
    using double_of_1e19 by simp
  then have "while_above_180 (Fin (10 ^ 19)) = None"
    by (intro while_above_180_stuck) simp_all
  then show ?thesis by (simp add: validateCoordinate_def is_NaN_def)
qed

text \<open>
  On a double below \<^verbatim>\<open>2^56\<close> the first loop ends after \<open>k\<close> rounds, \<open>k\<close> the least
  number of subtractions that brings the value to 180 or below, and no subtraction
  rounds.
\<close>

lemma while_above_180_double:
  assumes "is_double x" "x < 2 ^ 56"
  shows "\<exists>k::nat. while_above_180 (Fin x) = Some (Fin (x - 360 * real k)) \<and> x - 360 * real k \<le> 180
        \<and> (x \<le> 180 \<longrightarrow> k = 0) \<and> (180 < x \<longrightarrow> - 180 < x - 360 * real k)
        \<and> is_double (x - 360 * real k)"
  using assms
proof (induction "nat \<lceil>(x - 180) / 360\<rceil>" arbitrary: x rule: less_induct)
  case less
  show ?case
  proof (cases "180 < x")
    case False
    then have "while_above_180 (Fin x) = Some (Fin x)"
      by (subst while_above_180.simps) simp
    with False less.prems show ?thesis by (intro exI [of _ 0]) simp
  next
    case True
    have d: "is_double (x - 360)" using less.prems True by (intro is_double_minus_360)
    have step: "while_above_180 (Fin x) = while_above_180 (Fin (x - 360))"
      using True by (subst while_above_180.simps) (simp add: num_sub_def double_of_exact [OF d])
    have "\<lceil>(x - 360 - 180) / 360\<rceil> = \<lceil>(x - 180) / 360\<rceil> - 1"
    proof -
      have "(x - 360 - 180) / 360 = (x - 180) / 360 - 1" by (simp add: field_simps)
      then show ?thesis by (simp only: ceiling_diff_one)
    qed
    moreover have "0 < \<lceil>(x - 180) / 360\<rceil>" using True by simp
    ultimately have "nat \<lceil>(x - 360 - 180) / 360\<rceil> < nat \<lceil>(x - 180) / 360\<rceil>" by linarith
    moreover have "x - 360 < 2 ^ 56" using less.prems by simp
    ultimately obtain k :: nat where
      k: "while_above_180 (Fin (x - 360)) = Some (Fin (x - 360 - 360 * real k))"
         "x - 360 - 360 * real k \<le> 180"
         "x - 360 \<le> 180 \<longrightarrow> k = 0" "180 < x - 360 \<longrightarrow> - 180 < x - 360 - 360 * real k"
         "is_double (x - 360 - 360 * real k)"
      using less.hyps [OF _ d] by blast
    have eq: "x - 360 - 360 * real k = x - 360 * real (Suc k)" by simp
    have "- 180 < x - 360 * real (Suc k)"
    proof (cases "180 < x - 360")
      case True with k(4) eq show ?thesis by simp
    next
      case False
      with k(3) have "k = 0" by simp
      with \<open>180 < x\<close> show ?thesis by simp
    qed
    with step k eq True show ?thesis by (intro exI [of _ "Suc k"]) simp
  qed
qed

lemma while_below_minus_180_double:
  assumes "is_double x" "- (2 ^ 56) < x"
  shows "\<exists>k::nat. while_below_minus_180 (Fin x) = Some (Fin (x + 360 * real k))
        \<and> - 180 \<le> x + 360 * real k
        \<and> (- 180 \<le> x \<longrightarrow> k = 0) \<and> (x < - 180 \<longrightarrow> x + 360 * real k < 180)"
  using assms
proof (induction "nat \<lceil>(- 180 - x) / 360\<rceil>" arbitrary: x rule: less_induct)
  case less
  show ?case
  proof (cases "x < - 180")
    case False
    then have "while_below_minus_180 (Fin x) = Some (Fin x)"
      by (subst while_below_minus_180.simps) (simp add: num_lt_def)
    with False show ?thesis by (intro exI [of _ 0]) simp
  next
    case True
    have d: "is_double (x + 360)" using less.prems True by (intro is_double_plus_360)
    have step: "while_below_minus_180 (Fin x) = while_below_minus_180 (Fin (x + 360))"
      using True
      by (subst while_below_minus_180.simps) (simp add: num_lt_def double_of_exact [OF d])
    have "\<lceil>(- 180 - (x + 360)) / 360\<rceil> = \<lceil>(- 180 - x) / 360\<rceil> - 1"
    proof -
      have "(- 180 - (x + 360)) / 360 = (- 180 - x) / 360 - 1" by (simp add: field_simps)
      then show ?thesis by (simp only: ceiling_diff_one)
    qed
    moreover have "0 < \<lceil>(- 180 - x) / 360\<rceil>" using True by simp
    ultimately have "nat \<lceil>(- 180 - (x + 360)) / 360\<rceil> < nat \<lceil>(- 180 - x) / 360\<rceil>"
      by linarith
    moreover have "- (2 ^ 56) < x + 360" using less.prems by simp
    ultimately obtain k :: nat where
      k: "while_below_minus_180 (Fin (x + 360)) = Some (Fin (x + 360 + 360 * real k))"
         "- 180 \<le> x + 360 + 360 * real k"
         "- 180 \<le> x + 360 \<longrightarrow> k = 0" "x + 360 < - 180 \<longrightarrow> x + 360 + 360 * real k < 180"
      using less.hyps [OF _ d] by blast
    have eq: "x + 360 + 360 * real k = x + 360 * real (Suc k)" by simp
    have "x + 360 * real (Suc k) < 180"
    proof (cases "x + 360 < - 180")
      case True with k(4) eq show ?thesis by simp
    next
      case False
      with k(3) have "k = 0" by simp
      with \<open>x < - 180\<close> show ?thesis by simp
    qed
    with step k eq True show ?thesis by (intro exI [of _ "Suc k"]) simp
  qed
qed

lemma validateCoordinate_bounded_longitude:
  assumes "is_double x" "\<bar>x\<bar> < 2 ^ 56"
  shows "\<exists>y k. validateCoordinate (Fin x) ''lon'' = Some (Number (Fin y))
      \<and> - 180 \<le> y \<and> y \<le> 180 \<and> y = x + 360 * real_of_int k
      \<and> (- 180 \<le> x \<and> x \<le> 180 \<longrightarrow> y = x)"
proof -
  have hi: "x < 2 ^ 56" and lo: "- (2 ^ 56) < x" using assms(2) by (simp_all add: abs_less_iff)
  obtain k :: nat where
    a: "while_above_180 (Fin x) = Some (Fin (x - 360 * real k))" "x - 360 * real k \<le> 180"
       "x \<le> 180 \<longrightarrow> k = 0" "180 < x \<longrightarrow> - 180 < x - 360 * real k"
       "is_double (x - 360 * real k)"
    using while_above_180_double [OF assms(1) hi] by blast
  have lo': "- (2 ^ 56) < x - 360 * real k"
  proof (cases "180 < x")
    case True
    with a(4) show ?thesis by simp
  next
    case False
    with a(3) lo show ?thesis by simp
  qed
  obtain j :: nat where
    b: "while_below_minus_180 (Fin (x - 360 * real k))
          = Some (Fin (x - 360 * real k + 360 * real j))"
       "- 180 \<le> x - 360 * real k + 360 * real j"
       "- 180 \<le> x - 360 * real k \<longrightarrow> j = 0"
       "x - 360 * real k < - 180 \<longrightarrow> x - 360 * real k + 360 * real j < 180"
    using while_below_minus_180_double [OF a(5) lo'] by blast
  let ?y = "x - 360 * real k + 360 * real j"
  have v: "validateCoordinate (Fin x) ''lon'' = Some (Number (Fin ?y))"
    by (simp add: validateCoordinate_def is_NaN_def a(1) b(1))
  have up: "?y \<le> 180" using a(2) b(3) b(4) by (cases "- 180 \<le> x - 360 * real k") auto
  have int: "?y = x + 360 * real_of_int (int j - int k)" by simp
  have same: "- 180 \<le> x \<and> x \<le> 180 \<longrightarrow> ?y = x" using a(3) b(3) by auto
  from v b(2) up int same show ?thesis by blast
qed

lemma validateCoordinate_latitude:
  "validateCoordinate (Fin x) ''lat'' =
     Some (if - 90 \<le> x \<and> x \<le> 90 then Number (Fin x) else Null)"
  by (auto simp add: validateCoordinate_def is_NaN_def num_ge_def num_le_def num_lt_def num_eq_def)

lemma validateCoordinate_longitude_in_range:
  "- 180 \<le> y \<Longrightarrow> y \<le> 180 \<Longrightarrow> validateCoordinate (Fin y) ''lon'' = Some (Number (Fin y))"
  by (simp add: validateCoordinate_def is_NaN_def while_above_180.simps
      while_below_minus_180.simps num_lt_def)

lemma validateCoordinate_examples:
  "validateCoordinate (Fin 190) ''lon'' = Some (Number (Fin (- 170)))"
  "validateCoordinate (Fin (- 190)) ''lon'' = Some (Number (Fin 170))"
  "validateCoordinate (Fin 91) ''lat'' = Some Null"
  by (simp_all add: validateCoordinate_def is_NaN_def while_above_180.simps
      while_below_minus_180.simps num_sub_def num_lt_def num_ge_def num_le_def num_eq_def)

text \<open>
  C5 (as amended). \<open>validateCoordinate\<close> returns \<^verbatim>\<open>null\<close> for a coordinate that is
  \<open>NaN\<close>, whatever the type. It wraps a longitude below \<^verbatim>\<open>2^56\<close> in size into
  [-180, 180] by adding or subtracting 360 a whole number of times, leaving a
  longitude already in the range unchanged (190 gives -170, -190 gives 170); it
  returns a latitude unchanged when it lies in [-90, 90] and \<^verbatim>\<open>null\<close> for a latitude
  outside (91 gives \<^verbatim>\<open>null\<close>). Every one of these calls returns, which for the
  longitude is part of the statement. The longitude is a double, as every number of
  the program is.
\<close>

theorem validateCoordinate_wraps_bounded_longitude:
  assumes "is_double x" and "\<bar>x\<bar> < 2 ^ 56"
  shows "validateCoordinate NaN ty = Some Null
   \<and> (\<exists>y k. validateCoordinate (Fin x) ''lon'' = Some (Number (Fin y))
         \<and> - 180 \<le> y \<and> y \<le> 180 \<and> y = x + 360 * real_of_int k
         \<and> (- 180 \<le> x \<and> x \<le> 180 \<longrightarrow> y = x))
   \<and> validateCoordinate (Fin 190) ''lon'' = Some (Number (Fin (- 170)))
   \<and> validateCoordinate (Fin (- 190)) ''lon'' = Some (Number (Fin 170))
   \<and> validateCoordinate (Fin z) ''lat''
        = Some (if - 90 \<le> z \<and> z \<le> 90 then Number (Fin z) else Null)
   \<and> validateCoordinate (Fin 91) ''lat'' = Some Null"
proof -
  have "validateCoordinate NaN ty = Some Null"
    by (simp add: validateCoordinate_def is_NaN_def)
  with validateCoordinate_bounded_longitude [OF assms] validateCoordinate_latitude [of z]
    validateCoordinate_examples
  show ?thesis by blast
qed

theorem validateCoordinate_wraps_bounded_longitude_witness:
  "is_double 45.5 \<and> \<bar>45.5 :: real\<bar> < 2 ^ 56
   \<and> validateCoordinate (Fin 45.5) ''lon'' = Some (Number (Fin 45.5))
   \<and> validateCoordinate (Fin (- 90)) ''lat'' = Some (Number (Fin (- 90)))"
proof -
  have d: "is_double 45.5"
    unfolding is_double_def by (rule exI [of _ 91], rule exI [of _ "- 1"], simp add: power_int_minus)
  have b: "\<bar>45.5 :: real\<bar> < 2 ^ 56" by simp
  from validateCoordinate_wraps_bounded_longitude
    [OF d b, where ty = "''lon''" and z = "- 90"] d
  show ?thesis by auto
qed

text \<open>
  C5 as it is stated ("wraps any longitude into [-180, 180]") fails at the longitude
  \<open>NaN\<close>, for which the result is \<^verbatim>\<open>null\<close>; at an infinite longitude, for which the
  call does not return; and at a finite longitude as large as \<^verbatim>\<open>1e19\<close>, for which
  it does not return either, \<^verbatim>\<open>1e19 - 360\<close> being \<^verbatim>\<open>1e19\<close> again.
\<close>

theorem validateCoordinate_longitude_counterexample:
  "validateCoordinate NaN ''lon'' = Some Null \<and> validateCoordinate PInf ''lon'' = None
   \<and> validateCoordinate (Fin (10 ^ 19)) ''lon'' = None"
  by (simp only: validateCoordinate_PInf validateCoordinate_1e19)
     (simp add: validateCoordinate_def is_NaN_def)

section \<open>Feels-like temperature: properties\<close>




section \<open>The probability estimator: properties\<close>








section \<open>The response formatter: properties\<close>

text \<open>
  A string that ends with a percent sign converts to \<open>NaN\<close>: the sign is no part of
  any numeric literal, so the literal never reaches the end of the string.
\<close>

lemma ends_pct_dropWhile_digit: "ends_pct s \<Longrightarrow> ends_pct (dropWhile is_digit s)"
proof (induction s)
  case Nil
  then show ?case by simp
next
  case (Cons c s)
  show ?case
  proof (cases "s = []")
    case True
    with Cons.prems show ?thesis by (simp add: ends_pct_def is_digit_def)
  next
    case False
    with Cons.prems have "ends_pct s" by (simp add: ends_pct_def)
    then have "ends_pct (dropWhile is_digit s)" by (rule Cons.IH)
    with Cons.prems show ?thesis by simp
  qed
qed

lemma ends_pct_split_sign: "ends_pct s \<Longrightarrow> ends_pct (snd (split_sign s))"
  by (cases s) (auto simp: ends_pct_def split: if_splits)

lemma ends_pct_tl: "ends_pct s \<Longrightarrow> hd s = CHR ''.'' \<Longrightarrow> ends_pct (tl s)"
  by (cases s) (auto simp: ends_pct_def split: if_splits)

lemma ends_pct_exponent:
  assumes p: "ends_pct s"
  shows "ends_pct (snd (exponent_part s))"
proof (cases s)
  case Nil
  with p show ?thesis by (simp add: ends_pct_def)
next
  case (Cons c r)
  show ?thesis
  proof (cases "(c = CHR ''e'' \<or> c = CHR ''E'') \<and> takeWhile is_digit (snd (split_sign r)) \<noteq> []")
    case False
    with p Cons show ?thesis by (auto simp: split_beta Let_def)
  next
    case True
    then have "r \<noteq> []" by auto
    with p Cons have "ends_pct r" by (simp add: ends_pct_def)
    then have "ends_pct (dropWhile is_digit (snd (split_sign r)))"
      by (intro ends_pct_dropWhile_digit ends_pct_split_sign)
    with True Cons show ?thesis by (auto simp: split_beta Let_def)
  qed
qed

lemma ends_pct_drop8:
  assumes p: "ends_pct s" and t: "take 8 s = ''Infinity''"
  shows "ends_pct (drop 8 s)"
proof -
  have s: "s = ''Infinity'' @ drop 8 s" using t append_take_drop_id [of 8 s] by simp
  show ?thesis
  proof (cases "drop 8 s = []")
    case True
    with s have "s = ''Infinity''" by simp
    with p show ?thesis by (simp add: ends_pct_def)
  next
    case False
    then have "last s = last (drop 8 s)" using s by (metis last_appendR)
    with p False show ?thesis by (simp add: ends_pct_def)
  qed
qed

lemma str_decimal_literal_ends_pct:
  assumes "ends_pct s" "str_decimal_literal s = Some (v, r)"
  shows "ends_pct r"
proof -
  let ?s1 = "snd (split_sign s)"
  have p1: "ends_pct ?s1" using assms(1) by (rule ends_pct_split_sign)
  show ?thesis
  proof (cases "take 8 ?s1 = ''Infinity''")
    case True
    with assms(2) have "r = drop 8 ?s1" by (auto simp: str_decimal_literal_def split_beta)
    with p1 True show ?thesis by (simp add: ends_pct_drop8)
  next
    case False
    let ?s2 = "dropWhile is_digit ?s1"
    have p2: "ends_pct ?s2" using p1 by (rule ends_pct_dropWhile_digit)
    let ?s3 = "if ?s2 \<noteq> [] \<and> hd ?s2 = CHR ''.'' then dropWhile is_digit (tl ?s2) else ?s2"
    have p3: "ends_pct ?s3" using p2 by (auto intro: ends_pct_dropWhile_digit ends_pct_tl)
    from assms(2) False have "r = snd (exponent_part ?s3)"
      by (auto simp: str_decimal_literal_def split_beta Let_def split: if_splits)
    with p3 show ?thesis by (simp add: ends_pct_exponent)
  qed
qed

lemma trim_ends_pct: "ends_pct (trim (s @ ''%''))"
proof -
  have "\<exists>u. dropWhile is_space (s @ ''%'') = u @ ''%''"
    by (induction s) (auto simp: is_space_def)
  then obtain u where u: "dropWhile is_space (s @ ''%'') = u @ ''%''" by blast
  have "trim (s @ ''%'') = u @ ''%''"
    by (simp add: trim_def u is_space_def)
  then show ?thesis by (simp add: ends_pct_def)
qed

lemma radix_literal_ends_pct:
  assumes p: "ends_pct t"
  shows "radix_literal b (drop 2 t) = NaN"
proof (cases "drop 2 t = []")
  case True
  then show ?thesis by (simp add: radix_literal_def)
next
  case False
  then have "last (drop 2 t) = last t" by (metis append_take_drop_id last_appendR)
  with p False have "CHR ''%'' \<in> set (drop 2 t)" by (metis ends_pct_def last_in_set)
  moreover have "hex_digit_val CHR ''%'' = None" by (simp add: hex_digit_val_def is_digit_def)
  ultimately have
    "\<not> list_all (\<lambda>c. case hex_digit_val c of None \<Rightarrow> False | Some d \<Rightarrow> d < b) (drop 2 t)"
    unfolding list_all_iff by (intro notI) (drule bspec, assumption, simp)
  then show ?thesis by (simp add: radix_literal_def)
qed

lemma string_to_number_percent: "string_to_number (s @ ''%'') = NaN"
proof -
  let ?t = "trim (s @ ''%'')"
  have p: "ends_pct ?t" by (rule trim_ends_pct)
  then have ne: "?t \<noteq> []" by (simp add: ends_pct_def)
  have dec: "(case str_decimal_literal ?t of Some (v, []) \<Rightarrow> v | _ \<Rightarrow> NaN) = NaN"
  proof (cases "str_decimal_literal ?t")
    case None
    then show ?thesis by simp
  next
    case (Some vr)
    obtain v r where vr: "vr = (v, r)" by (cases vr)
    with Some p have "ends_pct r" using str_decimal_literal_ends_pct by blast
    then have "r \<noteq> []" by (simp add: ends_pct_def)
    with Some vr show ?thesis by (cases r) auto
  qed
  show ?thesis
    unfolding string_to_number_def Let_def
    using ne dec radix_literal_ends_pct [OF p] by simp
qed

lemma formatPercentage_twice:
  "formatPercentage (formatPercentage v) = (if v = Null \<or> v = Undefined then v else Str ''NaN%'')"
  by (simp add: formatPercentage_def string_to_number_percent)

lemma formatToOneDecimal_idem:
  "formatToOneDecimal (formatToOneDecimal v) = formatToOneDecimal v"
proof (cases "v = Null \<or> v = Undefined")
  case True
  then show ?thesis by (auto simp: formatToOneDecimal_def)
next
  case False
  show ?thesis
  proof (cases "to_number v")
    case (Fin x)
    have "\<lfloor>real_of_int \<lfloor>x * 10 + 1 / 2\<rfloor> / 10 * 10 + 1 / 2\<rfloor> = \<lfloor>x * 10 + 1 / 2\<rfloor>"
      by simp
    with False Fin show ?thesis by (simp add: formatToOneDecimal_def num_mul_def num_div_def)
  qed (use False in \<open>simp_all add: formatToOneDecimal_def num_mul_def num_div_def\<close>)
qed

lemma format_current_twice:
  "format_current (format_current c) =
     (format_current c)\<lparr>c_humidity := formatPercentage (c_humidity (format_current c)),
        c_cloud_cover :=
          (if c_cloud_cover (format_current c) \<noteq> Undefined
           then formatPercentage (c_cloud_cover (format_current c))
           else c_cloud_cover (format_current c))\<rparr>"
  by (simp add: format_current_def formatToOneDecimal_idem)

lemma format_day_twice:
  "format_day (format_day d) =
     (format_day d)\<lparr>d_humidity := formatPercentage (d_humidity (format_day d))\<rparr>"
  by (simp add: format_day_def formatToOneDecimal_idem)

text \<open>
  C8 (as amended). A second application of \<open>formatWeatherData\<close> leaves every field of
  the \<^verbatim>\<open>current\<close> record and of every forecast day unchanged except the humidity and
  the cloud cover: rounding to one decimal is idempotent, percent-stringification is
  not. The second application formats the humidity (and a defined cloud cover) once
  more, and formatting a percent string gives the string \<^verbatim>\<open>NaN%\<close>; only
  \<^verbatim>\<open>null\<close> and \<^verbatim>\<open>undefined\<close> pass through.
\<close>

theorem formatWeatherData_second_application:
  "formatWeatherData (formatWeatherData wo) =
     map_option
       (\<lambda>w. w\<lparr>current :=
                 map_option
                   (\<lambda>c. c\<lparr>c_humidity := formatPercentage (c_humidity c),
                           c_cloud_cover :=
                             (if c_cloud_cover c \<noteq> Undefined
                              then formatPercentage (c_cloud_cover c) else c_cloud_cover c)\<rparr>)
                   (current w),
               forecast :=
                 map_option (map (\<lambda>d. d\<lparr>d_humidity := formatPercentage (d_humidity d)\<rparr>))
                   (forecast w)\<rparr>)
       (formatWeatherData wo)
   \<and> formatToOneDecimal (formatToOneDecimal v) = formatToOneDecimal v
   \<and> formatPercentage (formatPercentage v)
       = (if v = Null \<or> v = Undefined then v else Str ''NaN%'')"
proof -
  have "formatWeatherData (formatWeatherData wo) =
     map_option
       (\<lambda>w. w\<lparr>current :=
                 map_option
                   (\<lambda>c. c\<lparr>c_humidity := formatPercentage (c_humidity c),
                           c_cloud_cover :=
                             (if c_cloud_cover c \<noteq> Undefined
                              then formatPercentage (c_cloud_cover c) else c_cloud_cover c)\<rparr>)
                   (current w),
               forecast :=
                 map_option (map (\<lambda>d. d\<lparr>d_humidity := formatPercentage (d_humidity d)\<rparr>))
                   (forecast w)\<rparr>)
       (formatWeatherData wo)"
    by (cases wo)
       (simp_all add: formatWeatherData_def format_weather_def option.map_comp comp_def
         format_current_twice format_day_twice)
  with formatToOneDecimal_idem [of v] formatPercentage_twice [of v] show ?thesis by simp
qed

theorem formatWeatherData_second_application_witness:
  "map_option (map_option c_temperature \<circ> current)
      (formatWeatherData (formatWeatherData (Some sample_weather))) = Some (Some (Number (Fin 21.5)))
   \<and> map_option (map_option c_humidity \<circ> current)
      (formatWeatherData (formatWeatherData (Some sample_weather))) = Some (Some (Str ''NaN%''))"
  using formatWeatherData_second_application [of "Some sample_weather" Null]
  by (simp add: formatWeatherData_def format_weather_def format_current_def sample_weather_def
      sample_current_def formatToOneDecimal_def formatPercentage_def num_mul_def num_div_def
      string_to_number_percent)

text \<open>
  C8 as it is stated fails on the sample object, whose humidity is 65: the first
  application gives the string \<^verbatim>\<open>65%\<close>, the second \<^verbatim>\<open>NaN%\<close>.
\<close>

theorem formatWeatherData_not_idempotent_counterexample:
  "map_option (map_option c_humidity \<circ> current) (formatWeatherData (Some sample_weather))
     = Some (Some (Str ''65%''))
   \<and> map_option (map_option c_humidity \<circ> current)
       (formatWeatherData (formatWeatherData (Some sample_weather))) = Some (Some (Str ''NaN%''))
   \<and> formatWeatherData (formatWeatherData (Some sample_weather))
       \<noteq> formatWeatherData (Some sample_weather)"
proof -
  have one: "map_option (map_option c_humidity \<circ> current) (formatWeatherData (Some sample_weather))
     = Some (Some (Str ''65%''))"
    by (simp add: formatWeatherData_def format_weather_def format_current_def sample_weather_def
        sample_current_def formatPercentage_def int_to_string_def)
  have two: "map_option (map_option c_humidity \<circ> current)
       (formatWeatherData (formatWeatherData (Some sample_weather))) = Some (Some (Str ''NaN%''))"
    by (simp add: formatWeatherData_def format_weather_def format_current_def sample_weather_def
        sample_current_def formatPercentage_def string_to_number_percent)
  have "formatWeatherData (formatWeatherData (Some sample_weather))
       \<noteq> formatWeatherData (Some sample_weather)"
  proof
    assume eq: "formatWeatherData (formatWeatherData (Some sample_weather))
       = formatWeatherData (Some sample_weather)"
    from two have "map_option (map_option c_humidity \<circ> current)
       (formatWeatherData (Some sample_weather)) = Some (Some (Str ''NaN%''))"
      unfolding eq .
    with one show False by simp
  qed
  with one two show ?thesis by blast
qed

section \<open>Condition text: properties\<close>

text \<open>
  What \<open>getNASA_ConditionsFromPOWER\<close> makes of a provider value: \<open>getValidNASAValue\<close>
  of the parsed value, with a fallback that is a number.
\<close>

lemma getValidNASAValue_parse_or_sentinel:
  "getValidNASAValue (parse_or_sentinel v) (Number (Fin f)) = Number (power_value v f)"
  by (cases "parseFloat v")
     (auto simp add: getValidNASAValue_def parse_or_sentinel_def isValidNASAValue_def
        js_strict_eq_def power_value_def)

lemma power_value_finite:
  "power_value (Number (Fin p)) f = Fin (if p \<noteq> 0 \<and> - 900 < p then p else f)"
  by (simp add: power_value_def)

lemma getNASA_WeatherCondition_number:
  "getNASA_WeatherCondition (Number a) (Number b) d =
     (if num_gt a (Fin 12) then ''Thunderstorm'' else if num_gt a (Fin 6) then ''Heavy Rain''
      else if num_gt a (Fin 2) then ''Rain'' else if num_gt a (Fin 0) then ''Light Rain''
      else if num_gt b (Fin 85) then ''Overcast'' else if num_gt b (Fin 70) then ''Mostly Cloudy''
      else if num_gt b (Fin 60) then ''Partly Cloudy''
      else if d \<and> num_lt b (Fin 25) then ''Clear and Dry''
      else if d \<and> num_lt b (Fin 35) then ''Clear Sky''
      else if d then ''Mostly Clear'' else ''Clear Sky'')"
  by (simp add: getNASA_WeatherCondition_def js_lt_def num_lt_def)

lemma getNASA_ConditionsFromPOWER_resolved:
  "fst (getNASA_ConditionsFromPOWER rnd k \<lparr>CLOUD_AMT = Some ca, PRECTOTCORR = Some pr\<rparr> dateStr d) =
     Inr (let cloudCover = power_value (ca dateStr) (fst (getRealisticCloudCover rnd k d));
              precipitation =
                power_value (pr dateStr) (fst (getRealisticPrecipitation rnd (Suc k) d))
          in if num_gt precipitation (Fin 10) then ''Heavy Rain''
             else if num_gt precipitation (Fin 5) then ''Rain''
             else if num_gt precipitation (Fin 2) then ''Light Rain''
             else if num_gt precipitation (Fin 0) then ''Drizzle''
             else if num_gt cloudCover (Fin 80) then ''Overcast''
             else if num_gt cloudCover (Fin 50) then ''Partly Cloudy''
             else if num_gt cloudCover (Fin 20) then ''Mostly Clear''
             else if d then ''Clear and Dry'' else ''Clear Sky'')"
proof -
  have k1: "snd (getRealisticCloudCover rnd k d) = Suc k"
    by (simp add: getRealisticCloudCover_def)
  show ?thesis
    by (simp add: getNASA_ConditionsFromPOWER_def split_beta Let_def k1
        getValidNASAValue_parse_or_sentinel)
qed

lemma num_lt_25_not_above_60:
  assumes "num_lt b (Fin 25)"
  shows "\<not> num_gt b (Fin 60)" "\<not> num_gt b (Fin 70)" "\<not> num_gt b (Fin 85)"
  using assms by (cases b; simp add: num_lt_def)+

text \<open>
  C9 (as amended). The two derivations differ. The generic, humidity-based one
  (\<open>getNASA_WeatherCondition\<close>) maps precipitation through the thresholds > 12, > 6,
  > 2, > 0 to Thunderstorm, Heavy Rain, Rain, Light Rain, and never yields Drizzle.
  The POWER, cloud-cover-based one (\<open>getNASA_ConditionsFromPOWER\<close>) does not work with
  the provider's values as they are: a value that is falsy (so also a precipitation
  or a cloud cover of 0) or not above -900 is replaced by a random synthetic
  fallback, so that a day the provider reports as dry can come out as Drizzle. It maps the resulting precipitation through > 10, > 5, > 2, > 0 to Heavy
  Rain, Rain, Light Rain, Drizzle, and never yields Thunderstorm; when one of the two
  series is missing from the provider's answer it throws. The generic one yields
  "Clear and Dry" exactly for a desert with precipitation not above 0 and humidity
  below 25; the POWER one exactly for a desert with resulting precipitation not above
  0 and resulting cloud cover not above 20, whatever the humidity.
\<close>

theorem condition_text_two_variants:
  "getNASA_WeatherCondition (Number a) (Number b) d =
     (if num_gt a (Fin 12) then ''Thunderstorm'' else if num_gt a (Fin 6) then ''Heavy Rain''
      else if num_gt a (Fin 2) then ''Rain'' else if num_gt a (Fin 0) then ''Light Rain''
      else if num_gt b (Fin 85) then ''Overcast'' else if num_gt b (Fin 70) then ''Mostly Cloudy''
      else if num_gt b (Fin 60) then ''Partly Cloudy''
      else if d \<and> num_lt b (Fin 25) then ''Clear and Dry''
      else if d \<and> num_lt b (Fin 35) then ''Clear Sky''
      else if d then ''Mostly Clear'' else ''Clear Sky'')
   \<and> fst (getNASA_ConditionsFromPOWER rnd k \<lparr>CLOUD_AMT = Some ca, PRECTOTCORR = Some pr\<rparr>
            dateStr d) =
       Inr (let cloudCover = power_value (ca dateStr) (fst (getRealisticCloudCover rnd k d));
                precipitation =
                  power_value (pr dateStr) (fst (getRealisticPrecipitation rnd (Suc k) d))
            in if num_gt precipitation (Fin 10) then ''Heavy Rain''
               else if num_gt precipitation (Fin 5) then ''Rain''
               else if num_gt precipitation (Fin 2) then ''Light Rain''
               else if num_gt precipitation (Fin 0) then ''Drizzle''
               else if num_gt cloudCover (Fin 80) then ''Overcast''
               else if num_gt cloudCover (Fin 50) then ''Partly Cloudy''
               else if num_gt cloudCover (Fin 20) then ''Mostly Clear''
               else if d then ''Clear and Dry'' else ''Clear Sky'')
   \<and> power_value (Number (Fin p)) f = Fin (if p \<noteq> 0 \<and> - 900 < p then p else f)
   \<and> fst (getNASA_ConditionsFromPOWER rnd k \<lparr>CLOUD_AMT = None, PRECTOTCORR = pro\<rparr> dateStr d)
       = Inl TypeError
   \<and> fst (getNASA_ConditionsFromPOWER rnd k \<lparr>CLOUD_AMT = cao, PRECTOTCORR = None\<rparr> dateStr d)
       = Inl TypeError
   \<and> (getNASA_WeatherCondition (Number a) (Number b) d = ''Clear and Dry''
        \<longleftrightarrow> d \<and> \<not> num_gt a (Fin 0) \<and> num_lt b (Fin 25))
   \<and> (fst (getNASA_ConditionsFromPOWER rnd k \<lparr>CLOUD_AMT = Some ca, PRECTOTCORR = Some pr\<rparr>
             dateStr d) = Inr ''Clear and Dry''
        \<longleftrightarrow> d
          \<and> \<not> num_gt (power_value (pr dateStr) (fst (getRealisticPrecipitation rnd (Suc k) d)))
                (Fin 0)
          \<and> \<not> num_gt (power_value (ca dateStr) (fst (getRealisticCloudCover rnd k d))) (Fin 20))
   \<and> getNASA_WeatherCondition (Number a) (Number b) d \<noteq> ''Drizzle''
   \<and> fst (getNASA_ConditionsFromPOWER rnd k \<lparr>CLOUD_AMT = Some ca, PRECTOTCORR = Some pr\<rparr>
            dateStr d) \<noteq> Inr ''Thunderstorm''"
proof -
  note g = getNASA_WeatherCondition_number [of a b d]
  note pw = getNASA_ConditionsFromPOWER_resolved [of rnd k ca pr dateStr d]
  let ?P = "power_value (pr dateStr) (fst (getRealisticPrecipitation rnd (Suc k) d))"
  let ?C = "power_value (ca dateStr) (fst (getRealisticCloudCover rnd k d))"
  have gt: "num_gt x (Fin 10) \<Longrightarrow> num_gt x (Fin 0)" "num_gt x (Fin 5) \<Longrightarrow> num_gt x (Fin 0)"
      "num_gt x (Fin 2) \<Longrightarrow> num_gt x (Fin 0)" "num_gt x (Fin 12) \<Longrightarrow> num_gt x (Fin 0)"
      "num_gt x (Fin 6) \<Longrightarrow> num_gt x (Fin 0)"
      "num_gt x (Fin 80) \<Longrightarrow> num_gt x (Fin 20)" "num_gt x (Fin 50) \<Longrightarrow> num_gt x (Fin 20)" for x
    by (cases x; simp)+
  have 1: "fst (getNASA_ConditionsFromPOWER rnd k \<lparr>CLOUD_AMT = None, PRECTOTCORR = pro\<rparr> dateStr d)
       = Inl TypeError"
    by (simp add: getNASA_ConditionsFromPOWER_def)
  have 2: "fst (getNASA_ConditionsFromPOWER rnd k \<lparr>CLOUD_AMT = cao, PRECTOTCORR = None\<rparr> dateStr d)
       = Inl TypeError"
    by (cases cao) (simp_all add: getNASA_ConditionsFromPOWER_def)
  have 3: "getNASA_WeatherCondition (Number a) (Number b) d = ''Clear and Dry''
        \<longleftrightarrow> d \<and> \<not> num_gt a (Fin 0) \<and> num_lt b (Fin 25)"
    unfolding g using gt [of a] num_lt_25_not_above_60 [of b] by (auto split: if_splits)
  have 4: "fst (getNASA_ConditionsFromPOWER rnd k \<lparr>CLOUD_AMT = Some ca, PRECTOTCORR = Some pr\<rparr>
             dateStr d) = Inr ''Clear and Dry''
        \<longleftrightarrow> d \<and> \<not> num_gt ?P (Fin 0) \<and> \<not> num_gt ?C (Fin 20)"
    unfolding pw Let_def using gt [of ?P] gt [of ?C] by (auto split: if_splits)
  have 5: "getNASA_WeatherCondition (Number a) (Number b) d \<noteq> ''Drizzle''"
    unfolding g by auto
  have 6: "fst (getNASA_ConditionsFromPOWER rnd k \<lparr>CLOUD_AMT = Some ca, PRECTOTCORR = Some pr\<rparr>
            dateStr d) \<noteq> Inr ''Thunderstorm''"
    unfolding pw Let_def by auto
  from g pw power_value_finite [of p f] 1 2 3 4 5 6 show ?thesis by (intro conjI)
qed

theorem condition_text_two_variants_witness:
  "getNASA_WeatherCondition (Number (Fin 13)) (Number (Fin 20)) True = ''Thunderstorm''
   \<and> fst (getNASA_ConditionsFromPOWER sample_random 0 sample_power_params ''20250701'' True)
       = Inr ''Heavy Rain''
   \<and> power_value (Number (Fin 13)) 0 = Fin 13
   \<and> fst (getNASA_ConditionsFromPOWER sample_random_low 0
            \<lparr>CLOUD_AMT = Some sample_cloud_amt, PRECTOTCORR = Some sample_prectotcorr_zero\<rparr>
            ''20250701'' False)
       = Inr ''Drizzle''"
  using condition_text_two_variants
    [of "Fin 13" "Fin 20" True sample_random 0 sample_cloud_amt sample_prectotcorr
        "''20250701''" 13 0]
    condition_text_two_variants
    [of "Fin 13" "Fin 20" False sample_random_low 0 sample_cloud_amt sample_prectotcorr_zero
        "''20250701''" 13 0]
  by (simp add: sample_power_params_def sample_cloud_amt_def sample_prectotcorr_def
      sample_prectotcorr_zero_def sample_random_low_def power_value_def
      getRealisticCloudCover_def getRealisticPrecipitation_def)

text \<open>
  C9 as it is stated fails for the POWER variant: at a precipitation of 13, above the
  threshold 12, it yields Heavy Rain where the generic variant yields Thunderstorm.
  And a desert with humidity 20 and a precipitation of 1 is not "Clear and Dry".
\<close>

theorem condition_text_variants_counterexample:
  "fst (getNASA_ConditionsFromPOWER sample_random 0 sample_power_params ''20250701'' False)
     = Inr ''Heavy Rain''
   \<and> getNASA_WeatherCondition (Number (Fin 13)) (Number (Fin 50)) False = ''Thunderstorm''
   \<and> getNASA_WeatherCondition (Number (Fin 1)) (Number (Fin 20)) True = ''Light Rain''"
  by (simp add: getNASA_ConditionsFromPOWER_resolved sample_power_params_def
      sample_cloud_amt_def sample_prectotcorr_def power_value_def getNASA_WeatherCondition_def)

section \<open>The route GET /weather: properties\<close>

lemmas parser_defs = parseFloat_str_def str_decimal_literal_def is_space_def is_digit_def
  digits_value_def digit_val_def scale10_def

subsection \<open>The synthetic fallback data\<close>

lemma climate_forecast_from_length:
  "length (fst (climate_forecast_from clk rnd lat d i k)) = 7 - i"
proof (induction clk rnd lat d i k rule: climate_forecast_from.induct)
  case (1 clk rnd lat isDesert i k)
  show ?case
  proof (cases "i < 7")
    case True
    with 1 show ?thesis
      by (subst climate_forecast_from.simps) (simp add: Let_def)
  next
    case False
    then show ?thesis by (subst climate_forecast_from.simps) simp
  qed
qed

text \<open>The climate model always returns: a record, a forecast of seven days, its own source name.\<close>

lemma generateNASA_Model_Data_shape:
  "\<exists>w0 k'. generateNASA_Model_Data clk rnd k lat lon d = (Inr w0, k')
      \<and> data_source w0 = Some ''NASA Climate Simulation''
      \<and> nasa_mission w0 = Some ''Global Modeling and Assimilation Office''
      \<and> (\<exists>c. current w0 = Some c)
      \<and> (\<exists>fs. forecast w0 = Some fs \<and> length fs = 7)"
proof -
  obtain fs k1 where g: "generateNASA_ClimateForecast clk rnd k lat lon d = (fs, k1)"
    by (cases "generateNASA_ClimateForecast clk rnd k lat lon d")
  have "length fs = 7"
    using climate_forecast_from_length [of clk rnd lat d 0 k] g
    by (simp add: generateNASA_ClimateForecast_def)
  then obtain day0 rest where fs: "fs = day0 # rest" by (cases fs) auto
  with \<open>length fs = 7\<close> g show ?thesis
    by (simp add: generateNASA_Model_Data_def)
qed

lemma format_weather_fields:
  "data_source (format_weather w) = data_source w"
  "nasa_mission (format_weather w) = nasa_mission w"
  "current (format_weather w) = map_option format_current (current w)"
  "forecast (format_weather w) = map_option (map format_day) (forecast w)"
  by (simp_all add: format_weather_def)

lemma catch_block_shape:
  "\<exists>w0 k'. generateNASA_Model_Data (Date_now e) (Math_random e) k
               (parseFloat (Str lat)) (parseFloat (Str lon))
               (isDesertRegion (parseFloat (Str lat)) (parseFloat (Str lon))) = (Inr w0, k')
     \<and> catch_block e k lat lon = Response 200 (JsonBody (Some (format_weather w0)))
     \<and> data_source (format_weather w0) = Some ''NASA Climate Simulation''
     \<and> (\<exists>c. current (format_weather w0) = Some c)
     \<and> (\<exists>fs. forecast (format_weather w0) = Some fs \<and> length fs = 7)"
proof -
  obtain w0 k' where g: "generateNASA_Model_Data (Date_now e) (Math_random e) k
               (parseFloat (Str lat)) (parseFloat (Str lon))
               (isDesertRegion (parseFloat (Str lat)) (parseFloat (Str lon))) = (Inr w0, k')"
    and ds: "data_source w0 = Some ''NASA Climate Simulation''"
    and c: "\<exists>c. current w0 = Some c"
    and f: "\<exists>fs. forecast w0 = Some fs \<and> length fs = 7"
    using generateNASA_Model_Data_shape by blast
  have "catch_block e k lat lon = Response 200 (JsonBody (Some (format_weather w0)))"
    using g by (simp add: catch_block_def formatWeatherData_def)
  moreover have "\<exists>c. current (format_weather w0) = Some c"
    using c by (auto simp: format_weather_fields)
  moreover have "\<exists>fs. forecast (format_weather w0) = Some fs \<and> length fs = 7"
    using f by (auto simp: format_weather_fields)
  ultimately show ?thesis using g ds by (auto simp: format_weather_fields)
qed

subsection \<open>The try block when every provider returns null\<close>

lemma fetch_weather_data_all_null:
  assumes "\<And>a b d. tryNASA_POWER e a b d = None" "\<And>a b d. tryNASA_GMAO e a b d = None"
      "\<And>a b d. tryNASA_Worldview e a b d = None"
  shows "fetch_weather_data e la lo d
           = generateNASA_Model_Data (Date_now e) (Math_random e) 0 la lo d"
  by (simp add: fetch_weather_data_def assms)

lemma add_probabilities_shape:
  "(\<exists>err k'. add_probabilities clk rnd k f ut h = (Inl err, k'))
   \<or> (\<exists>f' k'. add_probabilities clk rnd k f ut h = (Inr f', k')
         \<and> current f' = current f \<and> forecast f' = forecast f)"
proof (cases ut)
  case JsonNull
  then show ?thesis by (simp add: add_probabilities_def)
next
  case (JsonValue keys th)
  obtain res k' where cp: "calculateProbabilities clk rnd k f th h = (res, k')"
    by (cases "calculateProbabilities clk rnd k f th h")
  with JsonValue show ?thesis
    by (cases res) (simp_all add: add_probabilities_def)
qed

lemma response_data_fields:
  "current (response_data e f wd la lo d ut) = current f"
  "forecast (response_data e f wd la lo d ut) = forecast f"
  "data_source (response_data e f wd la lo d ut)
     = Some (string_or (data_source wd) ''NASA Climate Simulation'')"
  by (simp_all add: response_data_def)

text \<open>
  With every provider down the try block either throws or answers 200 with the
  formatted record and forecast of the climate model and the model's source name.
\<close>

lemma try_block_shape:
  assumes "\<And>a b d. tryNASA_POWER e a b d = None" "\<And>a b d. tryNASA_GMAO e a b d = None"
      "\<And>a b d. tryNASA_Worldview e a b d = None"
  shows "(\<exists>err k. try_block e req la lo = (Inl err, k))
       \<or> (\<exists>r k w0 k'. try_block e req la lo = (Inr (Response 200 (JsonBody (Some r))), k)
            \<and> generateNASA_Model_Data (Date_now e) (Math_random e) 0 la lo
                 (isDesertRegion la lo) = (Inr w0, k')
            \<and> current r = current (format_weather w0)
            \<and> forecast r = forecast (format_weather w0)
            \<and> data_source r = Some ''NASA Climate Simulation'')"
proof -
  let ?clk = "Date_now e" and ?rnd = "Math_random e" and ?d = "isDesertRegion la lo"
  let ?ut = "parse_user_thresholds e req"
  obtain w0 k1 where g: "generateNASA_Model_Data ?clk ?rnd 0 la lo ?d = (Inr w0, k1)"
     and ds: "data_source w0 = Some ''NASA Climate Simulation''"
    using generateNASA_Model_Data_shape by blast
  have f: "fetch_weather_data e la lo ?d = (Inr w0, k1)"
    using fetch_weather_data_all_null [OF assms] g by simp
  obtain hist k5 where h: "request_historical_data ?clk ?rnd k1 la lo ?d = (hist, k5)"
    by (cases "request_historical_data ?clk ?rnd k1 la lo ?d")
  let ?wd = "w0\<lparr>w_historicalData := Some hist,
                      w_lat := Number la, w_lon := Number lo, w_isDesert := Some ?d\<rparr>"
  have dswd: "string_or (data_source ?wd) ''NASA Climate Simulation'' = ''NASA Climate Simulation''"
    by (simp add: ds string_or_def)
  have cur: "current (format_weather ?wd) = current (format_weather w0)"
    and fc: "forecast (format_weather ?wd) = forecast (format_weather w0)"
    by (simp_all add: format_weather_def)
  have tb: "try_block e req la lo =
      (case add_probabilities ?clk ?rnd k5 (format_weather ?wd) ?ut (Some hist) of
          (Inl err, k6) \<Rightarrow> (Inl err, k6)
        | (Inr f, k6) \<Rightarrow>
            (Inr (Response 200 (JsonBody (Some (response_data e f ?wd la lo ?d ?ut)))), k6))"
    by (simp add: try_block_def f h Let_def)
  from add_probabilities_shape [of ?clk ?rnd k5 "format_weather ?wd" ?ut "Some hist"]
  show ?thesis
  proof (elim disjE exE conjE)
    fix err k'
    assume "add_probabilities ?clk ?rnd k5 (format_weather ?wd) ?ut (Some hist) = (Inl err, k')"
    then show ?thesis by (simp add: tb)
  next
    fix f' k'
    assume a: "add_probabilities ?clk ?rnd k5 (format_weather ?wd) ?ut (Some hist) = (Inr f', k')"
      and c: "current f' = current (format_weather ?wd)"
      and fo: "forecast f' = forecast (format_weather ?wd)"
    have "try_block e req la lo
        = (Inr (Response 200 (JsonBody (Some (response_data e f' ?wd la lo ?d ?ut)))), k')"
      by (simp add: tb a)
    with g c fo cur fc dswd show ?thesis
      by (auto simp: response_data_fields)
  qed
qed

subsection \<open>The handler\<close>

lemma validateCoordinate_lat_returns: "\<exists>v. validateCoordinate n ''lat'' = Some v"
  by (simp add: validateCoordinate_def)

text \<open>
  Whatever the catch block is entered with, it answers 200 with data of the climate
  model.
\<close>

lemma catch_block_synthetic:
  "\<exists>r k la lo d w0 k'. catch_block e k0 lat lon = Response 200 (JsonBody (Some r))
      \<and> generateNASA_Model_Data (Date_now e) (Math_random e) k la lo d = (Inr w0, k')
      \<and> current r = current (format_weather w0) \<and> forecast r = forecast (format_weather w0)
      \<and> data_source r = Some ''NASA Climate Simulation''"
  using catch_block_shape [of e k0 lat lon] by blast

text \<open>
  End to end, for a request whose longitude \<open>validateCoordinate\<close> returns from: with
  all three providers returning \<^verbatim>\<open>null\<close> the handler answers 200, and the record,
  the forecast and the source name of the body are those of the climate model.
\<close>

lemma get_weather_all_providers_null:
  assumes lat: "q_lat req = Some lat" "lat \<noteq> []" and lon: "q_lon req = Some lon" "lon \<noteq> []"
    and vlon: "validateCoordinate (parseFloat (Str lon)) ''lon'' = Some vlon"
    and nulls: "\<And>a b d. tryNASA_POWER e a b d = None" "\<And>a b d. tryNASA_GMAO e a b d = None"
      "\<And>a b d. tryNASA_Worldview e a b d = None"
  shows "\<exists>r k la lo d w0 k'. get_weather e req = Some (Response 200 (JsonBody (Some r)))
      \<and> generateNASA_Model_Data (Date_now e) (Math_random e) k la lo d = (Inr w0, k')
      \<and> current r = current (format_weather w0) \<and> forecast r = forecast (format_weather w0)
      \<and> data_source r = Some ''NASA Climate Simulation''"
proof -
  obtain vlat where vlat: "validateCoordinate (parseFloat (Str lat)) ''lat'' = Some vlat"
    using validateCoordinate_lat_returns by blast
  have gw: "get_weather e req =
      Some (if \<not> truthy vlat \<or> \<not> truthy vlon then catch_block e 0 lat lon
            else (case try_block e req (to_number vlat) (to_number vlon) of
                    (Inl err, k) \<Rightarrow> catch_block e k lat lon
                  | (Inr r, k) \<Rightarrow> r))"
    using lat lon vlat vlon by (simp add: get_weather_def Let_def)
  show ?thesis
  proof (cases "\<not> truthy vlat \<or> \<not> truthy vlon")
    case True
    with gw have "get_weather e req = Some (catch_block e 0 lat lon)" by simp
    with catch_block_synthetic [of e 0 lat lon] show ?thesis by simp
  next
    case False
    from try_block_shape [OF nulls, of req "to_number vlat" "to_number vlon"]
    show ?thesis
    proof (elim disjE exE conjE)
      fix err k
      assume "try_block e req (to_number vlat) (to_number vlon) = (Inl err, k)"
      with gw False have "get_weather e req = Some (catch_block e k lat lon)" by simp
      with catch_block_synthetic [of e k lat lon] show ?thesis by simp
    next
      fix r k w0 k'
      assume t: "try_block e req (to_number vlat) (to_number vlon)
                   = (Inr (Response 200 (JsonBody (Some r))), k)"
        and g: "generateNASA_Model_Data (Date_now e) (Math_random e) 0 (to_number vlat)
                  (to_number vlon) (isDesertRegion (to_number vlat) (to_number vlon))
                  = (Inr w0, k')"
        and r: "current r = current (format_weather w0)"
           "forecast r = forecast (format_weather w0)"
           "data_source r = Some ''NASA Climate Simulation''"
      from gw False t have "get_weather e req = Some (Response 200 (JsonBody (Some r)))" by simp
      with g r show ?thesis by blast
    qed
  qed
qed

text \<open>
  C1. The specification wants the handler to answer 200 with synthetic data for any
  request with \<^verbatim>\<open>lat\<close> and \<^verbatim>\<open>lon\<close> present when all three adapters return
  \<^verbatim>\<open>null\<close>. For the request \<^verbatim>\<open>lat=10&lon=Infinity\<close> the handler does not answer
  at all, whatever the adapters would return: \<^verbatim>\<open>parseFloat("Infinity")\<close> is
  \<^verbatim>\<open>Infinity\<close>, \<open>validateCoordinate\<close> guards against \<open>NaN\<close> only, and its loop
  \<^verbatim>\<open>while (normalized > 180) normalized -= 360\<close> never ends.
\<close>

theorem get_weather_infinite_longitude_never_responds:
  "parseFloat (Str ''Infinity'') = PInf
   \<and> validateCoordinate PInf ''lon'' = None
   \<and> get_weather e \<lparr>q_lat = Some ''10'', q_lon = Some ''Infinity'', q_thresholds = None\<rparr> = None"
proof -
  have a: "parseFloat_str ''10'' = Fin 10" by (simp add: parser_defs)
  have b: "parseFloat_str ''Infinity'' = PInf" by (simp add: parser_defs)
  have c: "validateCoordinate (Fin 10) ''lat'' = Some (Number (Fin 10))"
    by (simp add: validateCoordinate_latitude)
  show ?thesis by (simp add: get_weather_def a b c validateCoordinate_PInf)
qed

theorem get_weather_infinite_longitude_never_responds_witness:
  "tryNASA_POWER sample_env (Fin 10) PInf False = None
   \<and> tryNASA_GMAO sample_env (Fin 10) PInf False = None
   \<and> tryNASA_Worldview sample_env (Fin 10) PInf False = None
   \<and> get_weather sample_env
        \<lparr>q_lat = Some ''10'', q_lon = Some ''Infinity'', q_thresholds = None\<rparr> = None"
  using get_weather_infinite_longitude_never_responds [of sample_env]
  by (simp add: sample_env_def adapter_down_def)

text \<open>
  The same happens for a longitude that is finite but so large that subtracting 360
  does not change it, as for the request \<^verbatim>\<open>lat=10&lon=1e19\<close>.
\<close>

lemma get_weather_huge_longitude_never_responds:
  "get_weather e \<lparr>q_lat = Some ''10'', q_lon = Some ''1e19'', q_thresholds = None\<rparr> = None"
proof -
  have a: "parseFloat_str ''10'' = Fin 10" by (simp add: parser_defs)
  have "double_of (10 ^ 19) = Fin (10 ^ 19)" by (rule double_of_exact [OF is_double_1e19])
  then have b: "parseFloat_str ''1e19'' = Fin 10000000000000000000" by (simp add: parser_defs)
  have c: "validateCoordinate (Fin 10) ''lat'' = Some (Number (Fin 10))"
    by (simp add: validateCoordinate_latitude)
  have d: "validateCoordinate (Fin 10000000000000000000) ''lon'' = None"
    using validateCoordinate_1e19 by simp
  show ?thesis by (simp add: get_weather_def a b c d)
qed

lemma get_weather_zero_coordinate:
  assumes lat: "q_lat req = Some lat" "lat \<noteq> []" and lon: "q_lon req = Some lon" "lon \<noteq> []"
    and px: "parseFloat (Str lat) = Fin x" and py: "parseFloat (Str lon) = Fin y"
    and point: "- 90 \<le> x" "x \<le> 90" "- 180 \<le> y" "y \<le> 180"
    and zero: "x = 0 \<or> y = 0"
  shows "get_weather e req = Some (catch_block e 0 lat lon)"
proof -
  have vlon: "validateCoordinate (Fin y) ''lon'' = Some (Number (Fin y))"
    using point by (simp add: validateCoordinate_longitude_in_range)
  have falsy: "\<not> truthy (if - 90 \<le> x \<and> x \<le> 90 then Number (Fin x) else Null)
      \<or> \<not> truthy (Number (Fin y))"
    using zero by auto
  have px': "parseFloat_str lat = Fin x" and py': "parseFloat_str lon = Fin y"
    using px py by simp_all
  show ?thesis
    using lat lon falsy
    by (simp add: get_weather_def Let_def px' py' validateCoordinate_latitude vlon)
qed

text \<open>
  C10. Take a request for a point on the equator or the prime meridian: \<^verbatim>\<open>lat\<close>
  reads as a number in [-90, 90], \<^verbatim>\<open>lon\<close> as a number in [-180, 180], and one of
  them is 0. \<open>validateCoordinate\<close> accepts the coordinate 0 and returns the number
  0, which is falsy; so the handler throws before any provider is tried and the catch
  block serves the request: HTTP 200, the body the formatted data of the climate
  model at the parsed coordinates, with its source name, a current record and seven
  forecast days. The response does not depend on the provider adapters.
\<close>

theorem get_weather_zero_coordinate_served_by_catch:
  assumes "q_lat req = Some lat" "lat \<noteq> []" and "q_lon req = Some lon" "lon \<noteq> []"
    and "parseFloat (Str lat) = Fin x" and "parseFloat (Str lon) = Fin y"
    and "- 90 \<le> x" "x \<le> 90" "- 180 \<le> y" "y \<le> 180"
    and "x = 0 \<or> y = 0"
  shows "validateCoordinate (Fin 0) ''lat'' = Some (Number (Fin 0))
     \<and> validateCoordinate (Fin 0) ''lon'' = Some (Number (Fin 0))
     \<and> \<not> truthy (Number (Fin 0))
     \<and> get_weather e req = Some (catch_block e 0 lat lon)
     \<and> (\<exists>w0 k'. generateNASA_Model_Data (Date_now e) (Math_random e) 0 (Fin x) (Fin y)
                    (isDesertRegion (Fin x) (Fin y)) = (Inr w0, k')
          \<and> get_weather e req = Some (Response 200 (JsonBody (Some (format_weather w0))))
          \<and> data_source (format_weather w0) = Some ''NASA Climate Simulation''
          \<and> (\<exists>c. current (format_weather w0) = Some c)
          \<and> (\<exists>fs. forecast (format_weather w0) = Some fs \<and> length fs = 7))
     \<and> get_weather (e\<lparr>tryNASA_POWER := pw, tryNASA_GMAO := gm, tryNASA_Worldview := wv\<rparr>) req
         = get_weather e req"
proof -
  let ?e' = "e\<lparr>tryNASA_POWER := pw, tryNASA_GMAO := gm, tryNASA_Worldview := wv\<rparr>"
  have z: "validateCoordinate (Fin 0) ''lat'' = Some (Number (Fin 0))"
      "validateCoordinate (Fin 0) ''lon'' = Some (Number (Fin 0))"
    by (simp_all add: validateCoordinate_latitude validateCoordinate_longitude_in_range)
  have gw: "get_weather e req = Some (catch_block e 0 lat lon)"
    using assms by (rule get_weather_zero_coordinate)
  have gw': "get_weather ?e' req = Some (catch_block ?e' 0 lat lon)"
    using assms by (rule get_weather_zero_coordinate)
  have same: "catch_block ?e' 0 lat lon = catch_block e 0 lat lon"
    by (simp add: catch_block_def)
  from catch_block_shape [of e 0 lat lon] assms(5,6) gw
  have "\<exists>w0 k'. generateNASA_Model_Data (Date_now e) (Math_random e) 0 (Fin x) (Fin y)
                    (isDesertRegion (Fin x) (Fin y)) = (Inr w0, k')
          \<and> get_weather e req = Some (Response 200 (JsonBody (Some (format_weather w0))))
          \<and> data_source (format_weather w0) = Some ''NASA Climate Simulation''
          \<and> (\<exists>c. current (format_weather w0) = Some c)
          \<and> (\<exists>fs. forecast (format_weather w0) = Some fs \<and> length fs = 7)"
    by auto
  with z gw gw' same show ?thesis by simp
qed

theorem get_weather_zero_coordinate_served_by_catch_witness:
  "get_weather sample_env \<lparr>q_lat = Some ''0'', q_lon = Some ''20'', q_thresholds = None\<rparr>
     = Some (catch_block sample_env 0 ''0'' ''20'')
   \<and> (\<exists>w0 k'. generateNASA_Model_Data sample_clock sample_random 0 (Fin 0) (Fin 20) False
                  = (Inr w0, k')
        \<and> get_weather sample_env \<lparr>q_lat = Some ''0'', q_lon = Some ''20'', q_thresholds = None\<rparr>
            = Some (Response 200 (JsonBody (Some (format_weather w0))))
        \<and> data_source (format_weather w0) = Some ''NASA Climate Simulation'')"
proof -
  have a: "parseFloat (Str ''0'') = Fin 0" by (simp add: parser_defs)
  have b: "parseFloat (Str ''20'') = Fin 20" by (simp add: parser_defs)
  have d: "isDesertRegion (Fin 0) (Fin 20) = False"
    by (simp add: isDesertRegion_def DESERT_REGIONS_def num_ge_def num_le_def num_lt_def
        num_eq_def)
  have e: "Date_now sample_env = sample_clock" "Math_random sample_env = sample_random"
    by (simp_all add: sample_env_def)
  from get_weather_zero_coordinate_served_by_catch
    [of "\<lparr>q_lat = Some ''0'', q_lon = Some ''20'', q_thresholds = None\<rparr>" "''0''" "''20''"
        0 20 sample_env adapter_down adapter_down adapter_down, OF _ _ _ _ a b]
  show ?thesis unfolding d e by auto
qed


end
